theory Spec2Isabelle
  imports Main
begin

section \<open>The batch pipeline of \<open>src/openscad.cc\<close>\<close>

text \<open>
  The development embeds \<open>cmdline\<close> and \<open>checkAndExport\<close> of \<open>src/openscad.cc\<close>, in
  the build where \<open>ENABLE_CGAL\<close> is defined. A run is a function from its arguments
  and from the answers of the collaborators it calls (the parser, the evaluators, the file
  system) to the ordered list of the calls it makes and the way it ends.
\<close>

subsection \<open>Data\<close>

text \<open>\<open>namespace Render { enum type { CGAL, OPENCSG, THROWNTOGETHER }; }\<close>\<close>

datatype Render_type = CGAL | OPENCSG | THROWNTOGETHER

text \<open>The \<open>enum FileFormat\<close> values handed to \<open>exportFileByName\<close>.\<close>

datatype FileFormat = OPENSCAD_STL | OPENSCAD_OFF | OPENSCAD_AMF | OPENSCAD_DXF | OPENSCAD_SVG

text \<open>
  Of a \<open>Geometry\<close> the pipeline reads only \<open>getDimension()\<close>, an \<open>unsigned\<close>. A null
  \<open>shared_ptr<const Geometry>\<close> is \<open>None\<close>.
\<close>

datatype Geometry = Geometry (getDimension: nat)

text \<open>
  The process directory is set with \<open>fs::current_path\<close> to one of two places: the
  invoker's \<open>original_path\<close> and the script's parent directory \<open>fparent\<close>.
\<close>

datatype directory = original_path | fparent

text \<open>
  The ten \<open>const char *\<close> locals of \<open>cmdline\<close>, each \<open>NULL\<close> (\<open>None\<close>) until the
  suffix dispatch assigns one of them.
\<close>

record output_files =
  stl_output_file :: "string option"
  off_output_file :: "string option"
  amf_output_file :: "string option"
  dxf_output_file :: "string option"
  svg_output_file :: "string option"
  csg_output_file :: "string option"
  png_output_file :: "string option"
  ast_output_file :: "string option"
  term_output_file :: "string option"
  echo_output_file :: "string option"

text \<open>
  The calls of a run that reach outside \<open>cmdline\<close>, in the order they are made.
  \<open>Print\<close> is a \<open>PRINT\<close>/\<open>PRINTB\<close> with its formatted message; \<open>OpenOut p ok\<close>
  is the construction of a \<open>std::ofstream\<close> on \<open>p\<close> (which creates or truncates the
  file when \<open>ok\<close>), \<open>WriteOut p s\<close> is \<open>fstream << s\<close> on the stream of \<open>p\<close>.
\<close>

datatype event =
    ParserInit
  | RegisterBuiltin
  | OpenOut string bool
  | SetOutputHandler string
  | WriteOut string string
  | CloseOut string
  | HandleDep string
  | OpenIn string bool
  | Parse string bool
  | HandleDependencies
  | CurrentPath directory
  | SetDocumentPath
  | ResetIndexCounter
  | Instantiate
  | FindRootTag
  | SetRoot
  | TreeGetString
  | ModuleDump
  | EvaluateCSGTerm
  | EvaluateGeometry
  | WriteDeps string string
  | ExportFileByName FileFormat string string
  | ExportPng "Geometry option"
  | ExportPngWithThrowntogether
  | ExportPngWithOpencsg
  | DeleteRootNode
  | Print string

text \<open>
  A run ends by returning an exit status, unless it dereferences a null pointer: then it
  has no defined result.
\<close>

datatype outcome = Return int | NullDereference

text \<open>
  What the collaborators answer during one run. \<open>extension_str\<close> is
  \<open>boosty::extension_str\<close>; \<open>read_file\<close> is the \<open>std::ifstream\<close> on the input
  (\<open>None\<close> when it is not open, else the whole content); \<open>parse\<close> tells whether
  \<open>parse\<close> returns a module; \<open>can_open\<close> tells whether a \<open>std::ofstream\<close> on a path
  is open after construction (every such stream of \<open>cmdline\<close> is constructed while the
  process directory is \<open>original_path\<close>); \<open>root_raw_term\<close> is the dump of the term
  \<open>evaluateCSGTerm\<close> returns (\<open>None\<close> for a null term); \<open>root_geom\<close> is what
  \<open>evaluateGeometry\<close> returns; \<open>write_deps\<close> is the result of \<open>write_deps\<close>.
\<close>

record env =
  extension_str :: "string \<Rightarrow> string"
  commandline_commands :: string
  read_file :: "string \<Rightarrow> string option"
  parse :: "string \<Rightarrow> bool"
  can_open :: "string \<Rightarrow> bool"
  tree_getString :: string
  module_dump :: string
  root_raw_term :: "string option"
  root_geom :: "Geometry option"
  write_deps :: "string \<Rightarrow> string \<Rightarrow> int"

subsection \<open>Strings\<close>

text \<open>
  \<open>boost::algorithm::to_lower\<close> in the classic locale: the letters \<open>A\<close> to \<open>Z\<close> move
  to \<open>a\<close> to \<open>z\<close>, every other character stays.
\<close>

definition to_lower_char :: "char \<Rightarrow> char" where
  "to_lower_char c =
     (if 65 \<le> (of_char c :: nat) \<and> (of_char c :: nat) \<le> 90
      then char_of ((of_char c :: nat) + 32) else c)"

definition to_lower :: "string \<Rightarrow> string" where
  "to_lower s = map to_lower_char s"

text \<open>The \<open>%d\<close> of an \<open>unsigned\<close>: its decimal digits.\<close>

definition digit_char :: "nat \<Rightarrow> char" where
  "digit_char d = char_of (48 + d)"

fun format_unsigned :: "nat \<Rightarrow> string" where
  "format_unsigned n =
     (if n < 10 then [digit_char n]
      else format_unsigned (n div 10) @ [digit_char (n mod 10)])"

declare format_unsigned.simps [simp del]

subsection \<open>Sequencing with early return\<close>

text \<open>
  A statement of \<open>cmdline\<close> makes some calls and then either falls through to the next
  statement (\<open>None\<close>) or leaves the function (\<open>Some\<close>).
\<close>

type_synonym step = "event list \<times> outcome option"

definition emit :: "event list \<Rightarrow> step" where
  "emit es = (es, None)"

definition leave :: "event list \<Rightarrow> outcome \<Rightarrow> step" where
  "leave es r = (es, Some r)"

fun seqs :: "step list \<Rightarrow> step" where
  "seqs [] = ([], None)"
| "seqs (s # ss) =
     (case snd s of
        Some r \<Rightarrow> s
      | None \<Rightarrow> (fst s @ fst (seqs ss), snd (seqs ss)))"

subsection \<open>\<open>checkAndExport\<close>\<close>

text \<open>
  The result is \<open>None\<close> when \<open>root_geom\<close> is null: the function dereferences it
  without a test.
\<close>

definition checkAndExport ::
  "Geometry option \<Rightarrow> nat \<Rightarrow> FileFormat \<Rightarrow> string \<Rightarrow> event list \<times> bool option" where
  "checkAndExport geom nd format filename =
     (case geom of
        None \<Rightarrow> ([], None)
      | Some g \<Rightarrow>
          if getDimension g \<noteq> nd
          then ([Print (''Current top level object is not a '' @ format_unsigned nd @ ''D object.'')],
                Some False)
          else ([ExportFileByName format filename filename], Some True))"

subsection \<open>\<open>cmdline\<close>\<close>

definition no_output_files :: output_files where
  "no_output_files =
     \<lparr> stl_output_file = None, off_output_file = None, amf_output_file = None,
       dxf_output_file = None, svg_output_file = None, csg_output_file = None,
       png_output_file = None, ast_output_file = None, term_output_file = None,
       echo_output_file = None \<rparr>"

text \<open>The chain of suffix comparisons; \<open>None\<close> is its final \<open>else\<close>.\<close>

definition select_output_file :: "string \<Rightarrow> string \<Rightarrow> output_files option" where
  "select_output_file suffix output_file =
     (if suffix = ''.stl'' then Some (no_output_files\<lparr>stl_output_file := Some output_file\<rparr>)
      else if suffix = ''.off'' then Some (no_output_files\<lparr>off_output_file := Some output_file\<rparr>)
      else if suffix = ''.amf'' then Some (no_output_files\<lparr>amf_output_file := Some output_file\<rparr>)
      else if suffix = ''.dxf'' then Some (no_output_files\<lparr>dxf_output_file := Some output_file\<rparr>)
      else if suffix = ''.svg'' then Some (no_output_files\<lparr>svg_output_file := Some output_file\<rparr>)
      else if suffix = ''.csg'' then Some (no_output_files\<lparr>csg_output_file := Some output_file\<rparr>)
      else if suffix = ''.png'' then Some (no_output_files\<lparr>png_output_file := Some output_file\<rparr>)
      else if suffix = ''.ast'' then Some (no_output_files\<lparr>ast_output_file := Some output_file\<rparr>)
      else if suffix = ''.term'' then Some (no_output_files\<lparr>term_output_file := Some output_file\<rparr>)
      else if suffix = ''.echo'' then Some (no_output_files\<lparr>echo_output_file := Some output_file\<rparr>)
      else None)"

text \<open>\<open>std::string suffix = boosty::extension_str(output_file); to_lower(suffix);\<close>\<close>

definition suffix_of :: "env \<Rightarrow> string \<Rightarrow> string" where
  "suffix_of E output_file = to_lower (extension_str E output_file)"

text \<open>
  \<open>if (echo_output_file) echostream.reset(new Echostream(echo_output_file));\<close> The
  constructor of \<open>Echostream\<close> opens the file and registers the stream as output handler;
  nothing tests whether the stream is open.
\<close>

definition open_echostream :: "env \<Rightarrow> output_files \<Rightarrow> step" where
  "open_echostream E out =
     (case echo_output_file out of
        None \<Rightarrow> emit []
      | Some f \<Rightarrow> emit [OpenOut f (can_open E f), SetOutputHandler f])"

text \<open>Reading and parsing the script (lines 293 to 308).\<close>

definition load_script :: "env \<Rightarrow> string \<Rightarrow> step" where
  "load_script E filename =
     (case read_file E filename of
        None \<Rightarrow>
          leave [HandleDep filename, OpenIn filename False,
                 Print (''Can't open input file '' @ [CHR 0x27] @ filename @ [CHR 0x27] @ ''!\<newline>'')] (Return 1)
      | Some content \<Rightarrow>
          (let text = content @ ''\<newline>'' @ commandline_commands E in
           if \<not> parse E text
           then leave [HandleDep filename, OpenIn filename True, Parse text False,
                       Print (''Can't parse file '' @ [CHR 0x27] @ filename @ [CHR 0x27] @ ''!\<newline>'')] (Return 1)
           else emit [HandleDep filename, OpenIn filename True, Parse text True,
                      HandleDependencies]))"

text \<open>Instantiating the tree and choosing its root (lines 311 to 323).\<close>

definition build_tree :: step where
  "build_tree =
     emit [CurrentPath fparent, SetDocumentPath, ResetIndexCounter, Instantiate,
           FindRootTag, SetRoot]"

text \<open>The message of a failed \<open>std::ofstream\<close>.\<close>

definition cant_open_msg :: "string \<Rightarrow> string" where
  "cant_open_msg f = ''Can't open file '' @ [CHR 0x22] @ f @ [CHR 0x22] @ '' for export''"

text \<open>The \<open>.csg\<close> branch (lines 325 to 336).\<close>

definition export_csg :: "env \<Rightarrow> string \<Rightarrow> step" where
  "export_csg E f =
     (if \<not> can_open E f
      then emit [CurrentPath original_path, OpenOut f False, Print (cant_open_msg f)]
      else emit [CurrentPath original_path, OpenOut f True, CurrentPath fparent,
                 TreeGetString, WriteOut f (tree_getString E), WriteOut f ''\<newline>'',
                 CloseOut f])"

text \<open>The \<open>.ast\<close> branch (lines 337 to 348).\<close>

definition export_ast :: "env \<Rightarrow> string \<Rightarrow> step" where
  "export_ast E f =
     (if \<not> can_open E f
      then emit [CurrentPath original_path, OpenOut f False, Print (cant_open_msg f)]
      else emit [CurrentPath original_path, OpenOut f True, CurrentPath fparent,
                 ModuleDump, WriteOut f (module_dump E), WriteOut f ''\<newline>'',
                 CloseOut f])"

text \<open>The \<open>.term\<close> branch (lines 349 to 369).\<close>

definition export_term :: "env \<Rightarrow> string \<Rightarrow> step" where
  "export_term E f =
     seqs [
       emit [EvaluateCSGTerm, CurrentPath original_path],
       if \<not> can_open E f
       then emit [OpenOut f False, Print (cant_open_msg f)]
       else (case root_raw_term E of
               None \<Rightarrow> emit [OpenOut f True, WriteOut f ''No top-level CSG object\<newline>'',
                              CloseOut f]
             | Some d \<Rightarrow> emit [OpenOut f True, WriteOut f d, WriteOut f ''\<newline>'',
                               CloseOut f])]"

text \<open>
  Lines 372 to 381: the test that spares the evaluation, and the evaluation. The first
  component is the value of the local \<open>root_geom\<close> afterwards.
\<close>

definition skips_evaluation :: "output_files \<Rightarrow> Render_type \<Rightarrow> bool" where
  "skips_evaluation out renderer =
     ((echo_output_file out \<noteq> None \<or> png_output_file out \<noteq> None) \<and> \<not> (renderer = CGAL))"

definition evaluate_geometry :: "env \<Rightarrow> output_files \<Rightarrow> Render_type \<Rightarrow> Geometry option \<times> step" where
  "evaluate_geometry E out renderer =
     (if skips_evaluation out renderer then (None, emit [])
      else (case root_geom E of
              None \<Rightarrow> (None, leave [EvaluateGeometry, Print ''No top-level object found.''] (Return 1))
            | Some g \<Rightarrow> (Some g, emit [EvaluateGeometry])))"

text \<open>Lines 385 to 404: the dependency file.\<close>

definition deps_geom_out :: "output_files \<Rightarrow> string option" where
  "deps_geom_out out =
     (if stl_output_file out \<noteq> None then stl_output_file out
      else if off_output_file out \<noteq> None then off_output_file out
      else if amf_output_file out \<noteq> None then amf_output_file out
      else if dxf_output_file out \<noteq> None then dxf_output_file out
      else if svg_output_file out \<noteq> None then svg_output_file out
      else if png_output_file out \<noteq> None then png_output_file out
      else None)"

definition write_dependencies :: "env \<Rightarrow> output_files \<Rightarrow> string option \<Rightarrow> string \<Rightarrow> step" where
  "write_dependencies E out deps_output_file output_file =
     (case deps_output_file of
        None \<Rightarrow> emit []
      | Some deps_out \<Rightarrow>
          (case deps_geom_out out of
             None \<Rightarrow>
               leave [Print (''Output file:'' @ output_file @ ''\<newline>''),
                      Print ''Sorry, don't know how to write deps for that file type. Exiting\<newline>'']
                 (Return 1)
           | Some geom_out \<Rightarrow>
               if write_deps E deps_out geom_out = 0
               then leave [WriteDeps deps_out geom_out, Print ''error writing deps''] (Return 1)
               else emit [WriteDeps deps_out geom_out]))"

text \<open>Lines 406 to 429: one exporter of the five, guarded by its pointer.\<close>

definition export_geometry ::
  "string option \<Rightarrow> Geometry option \<Rightarrow> nat \<Rightarrow> FileFormat \<Rightarrow> step" where
  "export_geometry file geom nd format =
     (case file of
        None \<Rightarrow> emit []
      | Some f \<Rightarrow>
          (case checkAndExport geom nd format f of
             (es, None) \<Rightarrow> leave es NullDereference
           | (es, Some False) \<Rightarrow> leave es (Return 1)
           | (es, Some True) \<Rightarrow> emit es))"

text \<open>Lines 431 to 446: the raster image.\<close>

definition export_image :: "env \<Rightarrow> output_files \<Rightarrow> Geometry option \<Rightarrow> Render_type \<Rightarrow> step" where
  "export_image E out geom renderer =
     (case png_output_file out of
        None \<Rightarrow> emit []
      | Some f \<Rightarrow>
          if \<not> can_open E f
          then emit [OpenOut f False, Print (cant_open_msg f)]
          else if renderer = CGAL then emit [OpenOut f True, ExportPng geom, CloseOut f]
          else if renderer = THROWNTOGETHER
          then emit [OpenOut f True, ExportPngWithThrowntogether, CloseOut f]
          else emit [OpenOut f True, ExportPngWithOpencsg, CloseOut f])"

text \<open>The final \<open>else\<close> of the dispatch (lines 370 to 451).\<close>

definition export_evaluated ::
  "env \<Rightarrow> output_files \<Rightarrow> string option \<Rightarrow> string \<Rightarrow> Render_type \<Rightarrow> step" where
  "export_evaluated E out deps_output_file output_file renderer =
     (let geom = fst (evaluate_geometry E out renderer) in
      seqs [
        snd (evaluate_geometry E out renderer),
        emit [CurrentPath original_path],
        write_dependencies E out deps_output_file output_file,
        export_geometry (stl_output_file out) geom 3 OPENSCAD_STL,
        export_geometry (off_output_file out) geom 3 OPENSCAD_OFF,
        export_geometry (amf_output_file out) geom 3 OPENSCAD_AMF,
        export_geometry (dxf_output_file out) geom 2 OPENSCAD_DXF,
        export_geometry (svg_output_file out) geom 2 OPENSCAD_SVG,
        export_image E out geom renderer])"

text \<open>The dispatch on the selected file (lines 325 to 451).\<close>

definition dispatch ::
  "env \<Rightarrow> output_files \<Rightarrow> string option \<Rightarrow> string \<Rightarrow> Render_type \<Rightarrow> step" where
  "dispatch E out deps_output_file output_file renderer =
     (case csg_output_file out of
        Some f \<Rightarrow> export_csg E f
      | None \<Rightarrow>
     (case ast_output_file out of
        Some f \<Rightarrow> export_ast E f
      | None \<Rightarrow>
     (case term_output_file out of
        Some f \<Rightarrow> export_term E f
      | None \<Rightarrow> export_evaluated E out deps_output_file output_file renderer)))"

text \<open>
  A run that falls off the last statement reaches the final \<open>return 0\<close>.
\<close>

definition finish :: "step \<Rightarrow> event list \<times> outcome" where
  "finish s = (case snd s of Some r \<Rightarrow> (fst s, r) | None \<Rightarrow> (fst s, Return 0))"

text \<open>
  \<open>cmdline\<close> itself. The arguments \<open>camera\<close>, \<open>argc\<close> and \<open>argv\<close> decide none of
  its branches and are left out; \<open>original_path\<close> is the directory of that name. The
  destructor of the \<open>Echostream\<close>, which closes the echo file when the function is left,
  is not listed among the calls.
\<close>

definition cmdline ::
  "env \<Rightarrow> string option \<Rightarrow> string \<Rightarrow> string \<Rightarrow> Render_type \<Rightarrow> event list \<times> outcome" where
  "cmdline E deps_output_file filename output_file renderer =
     (case select_output_file (suffix_of E output_file) output_file of
        None \<Rightarrow>
          ([ParserInit, Print (''Unknown suffix for output file '' @ output_file @ ''\<newline>'')],
           Return 1)
      | Some out \<Rightarrow>
          finish (seqs [
            emit [ParserInit, RegisterBuiltin],
            open_echostream E out,
            load_script E filename,
            build_tree,
            dispatch E out deps_output_file output_file renderer,
            emit [DeleteRootNode]]))"

text \<open>The calls of a run and its end.\<close>

definition trace :: "event list \<times> outcome \<Rightarrow> event list" where
  "trace r = fst r"

definition status :: "event list \<times> outcome \<Rightarrow> outcome" where
  "status r = snd r"

subsection \<open>Vocabulary of the statements\<close>

text \<open>The ten suffixes the chain of comparisons knows, in its order.\<close>

definition recognized_suffixes :: "string list" where
  "recognized_suffixes =
     [''.stl'', ''.off'', ''.amf'', ''.dxf'', ''.svg'', ''.csg'', ''.png'', ''.ast'',
      ''.term'', ''.echo'']"

text \<open>The ten locals in the order of their declaration, and which of them are set.\<close>

definition assigned :: "output_files \<Rightarrow> string option list" where
  "assigned out =
     [stl_output_file out, off_output_file out, amf_output_file out, dxf_output_file out,
      svg_output_file out, csg_output_file out, png_output_file out, ast_output_file out,
      term_output_file out, echo_output_file out]"

definition format_tag :: "output_files \<Rightarrow> bool list" where
  "format_tag out = map (\<lambda>p. p \<noteq> None) (assigned out)"

text \<open>
  The calls that open, fill or hand over an output file: the streams of \<open>cmdline\<close>, the
  exporters, and \<open>write_deps\<close>.
\<close>

fun touches_output :: "event \<Rightarrow> bool" where
  "touches_output (OpenOut p ok) = True"
| "touches_output (WriteOut p s) = True"
| "touches_output (CloseOut p) = True"
| "touches_output (WriteDeps d g) = True"
| "touches_output (ExportFileByName fmt p q) = True"
| "touches_output (ExportPng g) = True"
| "touches_output ExportPngWithThrowntogether = True"
| "touches_output ExportPngWithOpencsg = True"
| "touches_output e = False"

text \<open>The calls that read the script: opening it and parsing it.\<close>

fun reads_input :: "event \<Rightarrow> bool" where
  "reads_input (OpenIn p ok) = True"
| "reads_input (Parse t ok) = True"
| "reads_input e = False"

text \<open>The messages printed during a run, in order.\<close>

fun message_of :: "event \<Rightarrow> string option" where
  "message_of (Print m) = Some m"
| "message_of e = None"

definition messages :: "event list \<Rightarrow> string list" where
  "messages tr = List.map_filter message_of tr"

text \<open>What is written to the stream of a path, in order.\<close>

fun written_to :: "string \<Rightarrow> event \<Rightarrow> string option" where
  "written_to p (WriteOut q s) = (if q = p then Some s else None)"
| "written_to p e = None"

definition output_of :: "string \<Rightarrow> event list \<Rightarrow> string" where
  "output_of p tr = concat (List.map_filter (written_to p) tr)"

subsection \<open>Sample runs\<close>

text \<open>
  A sample of the collaborators' answers: the extension of a name starts at its first dot,
  the script \<open>in.scad\<close> is readable and parses, every output file can be opened, the
  script has a two-dimensional top-level object and a boolean term.
\<close>

definition sample_env :: env where
  "sample_env =
     \<lparr> extension_str = dropWhile (\<lambda>c. c \<noteq> CHR ''.''),
       commandline_commands = ''x=1;\<newline>'',
       read_file = (\<lambda>p. if p = ''in.scad'' then Some ''square(1);'' else None),
       parse = (\<lambda>t. True),
       can_open = (\<lambda>p. True),
       tree_getString = ''group() { square(size = [1, 1], center = false); }'',
       module_dump = ''square(1);'',
       root_raw_term = Some ''square0'',
       root_geom = Some (Geometry 2),
       write_deps = (\<lambda>d g. 1) \<rparr>"

text \<open>The same with every output file unwritable.\<close>

definition readonly_env :: env where
  "readonly_env = sample_env\<lparr>can_open := (\<lambda>p. False)\<rparr>"

text \<open>The same with a script that has no top-level object: no term, no geometry.\<close>

definition empty_env :: env where
  "empty_env = sample_env\<lparr>root_raw_term := None, root_geom := None\<rparr>"

text \<open>The same with a script that does not parse.\<close>

definition broken_env :: env where
  "broken_env = sample_env\<lparr>parse := (\<lambda>t. False)\<rparr>"

section \<open>Properties\<close>

subsection \<open>Sequencing\<close>

lemma seqs_emit: "seqs (emit es # ss) = (es @ fst (seqs ss), snd (seqs ss))"
  by (simp add: emit_def)

lemma seqs_leave: "seqs (leave es r # ss) = (es, Some r)"
  by (simp add: leave_def)

lemma seqs_fall: "snd s = None \<Longrightarrow> seqs (s # ss) = (fst s @ fst (seqs ss), snd (seqs ss))"
  by simp

lemma seqs_stop: "snd s = Some r \<Longrightarrow> seqs (s # ss) = s"
  by simp

lemma fst_emit: "fst (emit es) = es"
  by (simp add: emit_def)

lemma snd_emit: "snd (emit es) = None"
  by (simp add: emit_def)

lemma fst_leave: "fst (leave es r) = es"
  by (simp add: leave_def)

lemma snd_leave: "snd (leave es r) = Some r"
  by (simp add: leave_def)

lemma set_seqs: "e \<in> set (fst (seqs ss)) \<Longrightarrow> \<exists>s \<in> set ss. e \<in> set (fst s)"
  by (induction ss) (auto split: option.splits)

lemma count_seqs:
  "count_list (fst (seqs ss)) e \<le> sum_list (map (\<lambda>s. count_list (fst s) e) ss)"
  by (induction ss) (auto split: option.splits)

declare seqs.simps(2) [simp del]

subsection \<open>The suffix dispatch\<close>

lemma select_fields:
  assumes "select_output_file s f = Some out"
  shows "stl_output_file out = (if s = ''.stl'' then Some f else None)"
    and "off_output_file out = (if s = ''.off'' then Some f else None)"
    and "amf_output_file out = (if s = ''.amf'' then Some f else None)"
    and "dxf_output_file out = (if s = ''.dxf'' then Some f else None)"
    and "svg_output_file out = (if s = ''.svg'' then Some f else None)"
    and "csg_output_file out = (if s = ''.csg'' then Some f else None)"
    and "png_output_file out = (if s = ''.png'' then Some f else None)"
    and "ast_output_file out = (if s = ''.ast'' then Some f else None)"
    and "term_output_file out = (if s = ''.term'' then Some f else None)"
    and "echo_output_file out = (if s = ''.echo'' then Some f else None)"
  using assms
  by (auto simp: select_output_file_def no_output_files_def split: if_splits)

lemma select_known:
  "s \<in> set recognized_suffixes \<Longrightarrow> \<exists>out. select_output_file s f = Some out"
  by (auto simp: select_output_file_def recognized_suffixes_def)

lemma select_unknown:
  "s \<notin> set recognized_suffixes \<Longrightarrow> select_output_file s f = None"
  by (simp add: select_output_file_def recognized_suffixes_def)

lemma select_total_exclusive:
  "(case select_output_file s f of
      None \<Rightarrow> s \<notin> set recognized_suffixes
    | Some out \<Rightarrow>
        s \<in> set recognized_suffixes \<and> filter (\<lambda>p. p \<noteq> None) (assigned out) = [Some f])"
  by (simp add: select_output_file_def recognized_suffixes_def assigned_def no_output_files_def)

lemma select_tag_suffix:
  "map_option format_tag (select_output_file s f) = map_option format_tag (select_output_file s g)"
  by (simp add: select_output_file_def format_tag_def assigned_def no_output_files_def)

subsection \<open>Loading the script\<close>

lemma load_script_cases [case_names unreadable unparsable loaded]:
  obtains "read_file E fn = None"
      "load_script E fn = leave [HandleDep fn, OpenIn fn False,
         Print (''Can't open input file '' @ [CHR 0x27] @ fn @ [CHR 0x27] @ ''!\<newline>'')] (Return 1)"
  | c where "read_file E fn = Some c" "\<not> parse E (c @ ''\<newline>'' @ commandline_commands E)"
      "load_script E fn = leave [HandleDep fn, OpenIn fn True,
         Parse (c @ ''\<newline>'' @ commandline_commands E) False,
         Print (''Can't parse file '' @ [CHR 0x27] @ fn @ [CHR 0x27] @ ''!\<newline>'')] (Return 1)"
  | c where "read_file E fn = Some c" "parse E (c @ ''\<newline>'' @ commandline_commands E)"
      "load_script E fn = emit [HandleDep fn, OpenIn fn True,
         Parse (c @ ''\<newline>'' @ commandline_commands E) True, HandleDependencies]"
proof (cases "read_file E fn")
  case None
  then show ?thesis using that(1) by (simp add: load_script_def)
next
  case (Some c)
  show ?thesis
  proof (cases "parse E (c @ ''\<newline>'' @ commandline_commands E)")
    case True
    then show ?thesis using that(3) [of c] Some by (simp add: load_script_def Let_def)
  next
    case False
    then show ?thesis using that(2) [of c] Some by (simp add: load_script_def Let_def)
  qed
qed

lemma open_echostream_falls: "snd (open_echostream E out) = None"
  by (simp add: open_echostream_def emit_def split: option.splits)

lemma cmdline_unknown:
  "suffix_of E f \<notin> set recognized_suffixes \<Longrightarrow>
   cmdline E d fn f r =
     ([ParserInit, Print (''Unknown suffix for output file '' @ f @ ''\<newline>'')], Return 1)"
  by (simp add: cmdline_def select_unknown)

lemma cmdline_known:
  "select_output_file (suffix_of E f) f = Some out \<Longrightarrow>
   cmdline E d fn f r =
     finish (seqs [emit [ParserInit, RegisterBuiltin], open_echostream E out,
                   load_script E fn, build_tree, dispatch E out d f r,
                   emit [DeleteRootNode]])"
  by (simp add: cmdline_def)

lemma cmdline_not_loaded:
  assumes "select_output_file (suffix_of E f) f = Some out"
    and "load_script E fn = leave es x"
  shows "cmdline E d fn f r =
     ([ParserInit, RegisterBuiltin] @ fst (open_echostream E out) @ es, x)"
  using assms
  by (simp add: cmdline_known seqs_emit seqs_leave seqs_fall open_echostream_falls finish_def)

lemma cmdline_loaded:
  assumes "select_output_file (suffix_of E f) f = Some out"
    and "load_script E fn = emit es"
  shows "cmdline E d fn f r =
     ([ParserInit, RegisterBuiltin] @ fst (open_echostream E out) @ es @
      [CurrentPath fparent, SetDocumentPath, ResetIndexCounter, Instantiate, FindRootTag,
       SetRoot] @
      fst (dispatch E out d f r) @
      (case snd (dispatch E out d f r) of None \<Rightarrow> [DeleteRootNode] | Some x \<Rightarrow> []),
      (case snd (dispatch E out d f r) of None \<Rightarrow> Return 0 | Some x \<Rightarrow> x))"
  using assms
  by (cases "snd (dispatch E out d f r)")
     (simp_all add: cmdline_known seqs_emit seqs_fall seqs_stop open_echostream_falls
        finish_def build_tree_def snd_emit fst_emit)

lemma select_of_suffix:
  assumes "suffix_of E f \<in> set recognized_suffixes"
  obtains out where "select_output_file (suffix_of E f) f = Some out"
  using select_known [OF assms] by blast

lemma load_script_loaded:
  assumes "read_file E fn = Some c" and "parse E (c @ ''\<newline>'' @ commandline_commands E)"
  shows "load_script E fn = emit [HandleDep fn, OpenIn fn True,
         Parse (c @ ''\<newline>'' @ commandline_commands E) True, HandleDependencies]"
  using assms by (simp add: load_script_def Let_def)

subsection \<open>The branches of the dispatch\<close>

lemma dispatch_csg:
  assumes "select_output_file ''.csg'' f = Some out"
  shows "dispatch E out d f' r = export_csg E f"
  by (simp add: dispatch_def select_fields [OF assms])

lemma dispatch_ast:
  assumes "select_output_file ''.ast'' f = Some out"
  shows "dispatch E out d f' r = export_ast E f"
  by (simp add: dispatch_def select_fields [OF assms])

lemma dispatch_term:
  assumes "select_output_file ''.term'' f = Some out"
  shows "dispatch E out d f' r = export_term E f"
  by (simp add: dispatch_def select_fields [OF assms])

lemma dispatch_evaluated:
  assumes "select_output_file s f = Some out"
    and "s \<noteq> ''.csg''" "s \<noteq> ''.ast''" "s \<noteq> ''.term''"
  shows "dispatch E out d f' r = export_evaluated E out d f' r"
  using assms(2-) by (simp add: dispatch_def select_fields [OF assms(1)])

lemma no_echostream:
  assumes "select_output_file s f = Some out" and "s \<noteq> ''.echo''"
  shows "open_echostream E out = emit []"
  using assms(2) by (simp add: open_echostream_def select_fields [OF assms(1)])

lemma echostream:
  assumes "select_output_file ''.echo'' f = Some out"
  shows "open_echostream E out = emit [OpenOut f (can_open E f), SetOutputHandler f]"
  by (simp add: open_echostream_def select_fields [OF assms])

subsection \<open>The geometry path\<close>

lemma skips_suffix:
  assumes "select_output_file s f = Some out"
  shows "skips_evaluation out r \<longleftrightarrow> (s = ''.echo'' \<or> s = ''.png'') \<and> r \<noteq> CGAL"
  by (simp add: skips_evaluation_def select_fields [OF assms])

lemma export_evaluated_empty:
  assumes "\<not> skips_evaluation out r" and "root_geom E = None"
  shows "export_evaluated E out d f r =
     leave [EvaluateGeometry, Print ''No top-level object found.''] (Return 1)"
  using assms
  by (simp add: export_evaluated_def evaluate_geometry_def Let_def seqs_stop leave_def)

lemma cmdline_empty_geometry:
  assumes "suffix_of E f \<in> set [''.stl'', ''.off'', ''.amf'', ''.dxf'', ''.svg'']
      \<or> suffix_of E f = ''.png'' \<and> r = CGAL"
    and "read_file E fn = Some c" and "parse E (c @ ''\<newline>'' @ commandline_commands E)"
    and "root_geom E = None"
  shows "cmdline E d fn f r =
     ([ParserInit, RegisterBuiltin, HandleDep fn, OpenIn fn True,
       Parse (c @ ''\<newline>'' @ commandline_commands E) True, HandleDependencies,
       CurrentPath fparent, SetDocumentPath, ResetIndexCounter, Instantiate, FindRootTag,
       SetRoot, EvaluateGeometry, Print ''No top-level object found.''], Return 1)"
proof -
  have "suffix_of E f \<in> set recognized_suffixes"
    using assms(1) by (auto simp: recognized_suffixes_def)
  then obtain out where out: "select_output_file (suffix_of E f) f = Some out"
    by (rule select_of_suffix)
  have echo: "open_echostream E out = emit []"
    using no_echostream [OF out] assms(1) by auto
  have disp: "dispatch E out d f r = export_evaluated E out d f r"
    using dispatch_evaluated [OF out] assms(1) by auto
  have "\<not> skips_evaluation out r"
    using assms(1) by (auto simp: skips_suffix [OF out])
  then have ev: "export_evaluated E out d f r =
     leave [EvaluateGeometry, Print ''No top-level object found.''] (Return 1)"
    using assms(4) by (rule export_evaluated_empty)
  show ?thesis
    by (simp add: cmdline_loaded [OF out load_script_loaded [OF assms(2,3)]] echo disp ev
        fst_emit fst_leave snd_leave)
qed

subsection \<open>Messages, and the five exporters\<close>

lemma messages_append: "messages (xs @ ys) = messages xs @ messages ys"
  by (simp add: messages_def List.map_filter_def)

lemma messages_Nil: "messages [] = []"
  by (simp add: messages_def)

lemma messages_Cons:
  "messages (e # es) = (case message_of e of None \<Rightarrow> messages es | Some m \<Rightarrow> m # messages es)"
  by (simp add: messages_def split: option.splits)

lemma deps_geom_out_suffix:
  assumes "select_output_file s f = Some out"
  shows "deps_geom_out out =
    (if s \<in> set [''.stl'', ''.off'', ''.amf'', ''.dxf'', ''.svg'', ''.png''] then Some f else None)"
  by (simp add: deps_geom_out_def select_fields [OF assms])

lemma export_geometry_suffix:
  assumes "select_output_file s f = Some out"
  shows "export_geometry (stl_output_file out) (Some g) nd fmt =
           (if s = ''.stl''
            then (if getDimension g \<noteq> nd
                  then leave [Print (''Current top level object is not a '' @ format_unsigned nd @ ''D object.'')] (Return 1)
                  else emit [ExportFileByName fmt f f])
            else emit [])"
    and "export_geometry (off_output_file out) (Some g) nd fmt =
           (if s = ''.off''
            then (if getDimension g \<noteq> nd
                  then leave [Print (''Current top level object is not a '' @ format_unsigned nd @ ''D object.'')] (Return 1)
                  else emit [ExportFileByName fmt f f])
            else emit [])"
    and "export_geometry (amf_output_file out) (Some g) nd fmt =
           (if s = ''.amf''
            then (if getDimension g \<noteq> nd
                  then leave [Print (''Current top level object is not a '' @ format_unsigned nd @ ''D object.'')] (Return 1)
                  else emit [ExportFileByName fmt f f])
            else emit [])"
    and "export_geometry (dxf_output_file out) (Some g) nd fmt =
           (if s = ''.dxf''
            then (if getDimension g \<noteq> nd
                  then leave [Print (''Current top level object is not a '' @ format_unsigned nd @ ''D object.'')] (Return 1)
                  else emit [ExportFileByName fmt f f])
            else emit [])"
    and "export_geometry (svg_output_file out) (Some g) nd fmt =
           (if s = ''.svg''
            then (if getDimension g \<noteq> nd
                  then leave [Print (''Current top level object is not a '' @ format_unsigned nd @ ''D object.'')] (Return 1)
                  else emit [ExportFileByName fmt f f])
            else emit [])"
  by (simp_all add: export_geometry_def checkAndExport_def select_fields [OF assms])

lemma export_image_none:
  assumes "select_output_file s f = Some out" and "s \<noteq> ''.png''"
  shows "export_image E out geom r = emit []"
  using assms(2) by (simp add: export_image_def select_fields [OF assms(1)])

lemma export_evaluated_brep:
  assumes "select_output_file s f = Some out"
    and "(s, nd, fmt) \<in> set [(''.stl'', 3, OPENSCAD_STL), (''.off'', 3, OPENSCAD_OFF),
           (''.amf'', 3, OPENSCAD_AMF), (''.dxf'', 2, OPENSCAD_DXF), (''.svg'', 2, OPENSCAD_SVG)]"
    and "root_geom E = Some g"
  shows "export_evaluated E out d f r =
     seqs [emit [EvaluateGeometry, CurrentPath original_path],
           write_dependencies E out d f,
           if getDimension g \<noteq> nd
           then leave [Print (''Current top level object is not a '' @ format_unsigned nd @ ''D object.'')] (Return 1)
           else emit [ExportFileByName fmt f f]]"
proof -
  have sk: "\<not> skips_evaluation out r"
    using assms(2) by (auto simp: skips_suffix [OF assms(1)])
  have png: "s \<noteq> ''.png''"
    using assms(2) by auto
  have ev: "evaluate_geometry E out r = (Some g, emit [EvaluateGeometry])"
    using sk assms(3) by (simp add: evaluate_geometry_def)
  have wd: "snd (write_dependencies E out d f) = None \<or>
            (\<exists>x. snd (write_dependencies E out d f) = Some x)"
    by auto
  from wd show ?thesis
  proof
    assume w: "snd (write_dependencies E out d f) = None"
    from assms(2) show ?thesis
      by (auto simp add: export_evaluated_def ev Let_def seqs_emit seqs_fall [OF w] seqs_leave
          export_geometry_suffix [OF assms(1)] export_image_none [OF assms(1) png]
          fst_emit snd_emit)
  next
    assume "\<exists>x. snd (write_dependencies E out d f) = Some x"
    then obtain x where w: "snd (write_dependencies E out d f) = Some x" ..
    show ?thesis
      by (simp add: export_evaluated_def ev Let_def seqs_emit seqs_stop [OF w])
  qed
qed

lemma write_dependencies_ok:
  assumes "select_output_file s f = Some out"
    and "s \<in> set [''.stl'', ''.off'', ''.amf'', ''.dxf'', ''.svg'', ''.png'']"
    and "case d of None \<Rightarrow> True | Some p \<Rightarrow> write_deps E p f \<noteq> 0"
  shows "write_dependencies E out d f' =
     emit (case d of None \<Rightarrow> [] | Some p \<Rightarrow> [WriteDeps p f])"
  using assms(2,3)
  by (simp add: write_dependencies_def deps_geom_out_suffix [OF assms(1)] split: option.splits)

subsection \<open>Counting the evaluations\<close>

lemma select_recognized:
  "select_output_file s f = Some out \<Longrightarrow> s \<in> set recognized_suffixes"
  using select_unknown [of s f] by auto

lemma evaluate_geometry_count:
  "count_list (fst (snd (evaluate_geometry E out r))) EvaluateGeometry =
     (if skips_evaluation out r then 0 else 1)"
  by (simp add: evaluate_geometry_def emit_def leave_def split: option.splits)

lemma write_dependencies_no_evaluation:
  "count_list (fst (write_dependencies E out d f)) EvaluateGeometry = 0"
  by (simp add: write_dependencies_def emit_def leave_def split: option.splits)

lemma export_geometry_no_evaluation:
  "count_list (fst (export_geometry file geom nd fmt)) EvaluateGeometry = 0"
  by (simp add: export_geometry_def checkAndExport_def emit_def leave_def split: option.splits)

lemma export_image_no_evaluation:
  "count_list (fst (export_image E out geom r)) EvaluateGeometry = 0"
  by (simp add: export_image_def emit_def split: option.splits)

lemma export_evaluated_count:
  "count_list (fst (export_evaluated E out d f r)) EvaluateGeometry \<le>
     (if skips_evaluation out r then 0 else 1)"
proof -
  have "count_list (fst (export_evaluated E out d f r)) EvaluateGeometry \<le>
      sum_list (map (\<lambda>s. count_list (fst s) EvaluateGeometry)
        [snd (evaluate_geometry E out r), emit [CurrentPath original_path],
         write_dependencies E out d f,
         export_geometry (stl_output_file out) (fst (evaluate_geometry E out r)) 3 OPENSCAD_STL,
         export_geometry (off_output_file out) (fst (evaluate_geometry E out r)) 3 OPENSCAD_OFF,
         export_geometry (amf_output_file out) (fst (evaluate_geometry E out r)) 3 OPENSCAD_AMF,
         export_geometry (dxf_output_file out) (fst (evaluate_geometry E out r)) 2 OPENSCAD_DXF,
         export_geometry (svg_output_file out) (fst (evaluate_geometry E out r)) 2 OPENSCAD_SVG,
         export_image E out (fst (evaluate_geometry E out r)) r])"
    unfolding export_evaluated_def Let_def by (rule count_seqs)
  then show ?thesis
    by (simp add: evaluate_geometry_count write_dependencies_no_evaluation
        export_geometry_no_evaluation export_image_no_evaluation fst_emit)
qed

lemma dispatch_count:
  assumes "select_output_file s f = Some out"
  shows "count_list (fst (dispatch E out d f' r)) EvaluateGeometry \<le>
     (if s \<in> set [''.stl'', ''.off'', ''.amf'', ''.dxf'', ''.svg'']
         \<or> s \<in> set [''.png'', ''.echo''] \<and> r = CGAL then 1 else 0)"
proof -
  consider "s = ''.csg''" | "s = ''.ast''" | "s = ''.term''"
    | "s \<noteq> ''.csg''" "s \<noteq> ''.ast''" "s \<noteq> ''.term''"
    by blast
  then show ?thesis
  proof cases
    case 1
    then show ?thesis
      using dispatch_csg [of f out E d f' r] assms by (simp add: export_csg_def emit_def)
  next
    case 2
    then show ?thesis
      using dispatch_ast [of f out E d f' r] assms by (simp add: export_ast_def emit_def)
  next
    case 3
    then show ?thesis
      using dispatch_term [of f out E d f' r] assms
      by (simp add: export_term_def seqs_emit split: option.splits)
  next
    case 4
    have k: "s \<in> set recognized_suffixes"
      using assms by (rule select_recognized)
    have "count_list (fst (dispatch E out d f' r)) EvaluateGeometry \<le>
       (if skips_evaluation out r then 0 else 1)"
      using export_evaluated_count [of E out d f' r] dispatch_evaluated [OF assms 4, of E d f' r]
      by simp
    moreover have "\<not> skips_evaluation out r \<Longrightarrow>
       s \<in> set [''.stl'', ''.off'', ''.amf'', ''.dxf'', ''.svg'']
         \<or> s \<in> set [''.png'', ''.echo''] \<and> r = CGAL"
      using k 4 by (auto simp: skips_suffix [OF assms] recognized_suffixes_def)
    ultimately show ?thesis
      by (auto split: if_splits)
  qed
qed

lemma echostream_no_evaluation:
  "count_list (fst (open_echostream E out)) EvaluateGeometry = 0"
  by (simp add: open_echostream_def emit_def split: option.splits)

lemma cmdline_count:
  "count_list (trace (cmdline E d fn f r)) EvaluateGeometry \<le>
     (if suffix_of E f \<in> set [''.stl'', ''.off'', ''.amf'', ''.dxf'', ''.svg'']
         \<or> suffix_of E f \<in> set [''.png'', ''.echo''] \<and> r = CGAL then 1 else 0)"
proof (cases "suffix_of E f \<in> set recognized_suffixes")
  case False
  then show ?thesis
    by (simp add: cmdline_unknown trace_def)
next
  case True
  then obtain out where out: "select_output_file (suffix_of E f) f = Some out"
    by (rule select_of_suffix)
  note dc = dispatch_count [OF out, of E d f r]
  show ?thesis
  proof (cases E fn rule: load_script_cases)
    case unreadable
    show ?thesis
      by (simp add: cmdline_not_loaded [OF out unreadable(2)] trace_def
          echostream_no_evaluation)
  next
    case (unparsable c)
    show ?thesis
      by (simp add: cmdline_not_loaded [OF out unparsable(3)] trace_def
          echostream_no_evaluation)
  next
    case (loaded c)
    have "count_list (trace (cmdline E d fn f r)) EvaluateGeometry =
          count_list (fst (dispatch E out d f r)) EvaluateGeometry"
      by (simp add: cmdline_loaded [OF out loaded(3)] trace_def echostream_no_evaluation
          split: option.splits)
    then show ?thesis using dc by simp
  qed
qed

subsection \<open>Where the dependency file is written\<close>

lemma write_dependencies_events:
  "WriteDeps p q \<in> set (fst (write_dependencies E out d f)) \<Longrightarrow>
     d = Some p \<and> deps_geom_out out = Some q"
  by (auto simp: write_dependencies_def emit_def leave_def split: option.splits if_splits)

lemma evaluate_geometry_no_deps:
  "WriteDeps p q \<notin> set (fst (snd (evaluate_geometry E out r)))"
  by (simp add: evaluate_geometry_def emit_def leave_def split: option.splits)

lemma export_geometry_no_deps:
  "WriteDeps p q \<notin> set (fst (export_geometry file geom nd fmt))"
  by (simp add: export_geometry_def checkAndExport_def emit_def leave_def split: option.splits)

lemma export_image_no_deps:
  "WriteDeps p q \<notin> set (fst (export_image E out geom r))"
  by (simp add: export_image_def emit_def split: option.splits)

lemma export_evaluated_deps:
  assumes "WriteDeps p q \<in> set (fst (export_evaluated E out d f r))"
  shows "d = Some p \<and> deps_geom_out out = Some q"
proof -
  from assms obtain s where
    s: "s \<in> set [snd (evaluate_geometry E out r), emit [CurrentPath original_path],
         write_dependencies E out d f,
         export_geometry (stl_output_file out) (fst (evaluate_geometry E out r)) 3 OPENSCAD_STL,
         export_geometry (off_output_file out) (fst (evaluate_geometry E out r)) 3 OPENSCAD_OFF,
         export_geometry (amf_output_file out) (fst (evaluate_geometry E out r)) 3 OPENSCAD_AMF,
         export_geometry (dxf_output_file out) (fst (evaluate_geometry E out r)) 2 OPENSCAD_DXF,
         export_geometry (svg_output_file out) (fst (evaluate_geometry E out r)) 2 OPENSCAD_SVG,
         export_image E out (fst (evaluate_geometry E out r)) r]"
    and m: "WriteDeps p q \<in> set (fst s)"
    unfolding export_evaluated_def Let_def by (blast dest: set_seqs)
  from s m have "WriteDeps p q \<in> set (fst (write_dependencies E out d f))"
    by (auto simp: evaluate_geometry_no_deps export_geometry_no_deps export_image_no_deps
        fst_emit)
  then show ?thesis by (rule write_dependencies_events)
qed

lemma dispatch_deps:
  assumes "select_output_file s f = Some out"
    and "WriteDeps p q \<in> set (fst (dispatch E out d f' r))"
  shows "s \<in> set [''.stl'', ''.off'', ''.amf'', ''.dxf'', ''.svg'', ''.png''] \<and> d = Some p \<and> q = f"
proof -
  consider "s = ''.csg''" | "s = ''.ast''" | "s = ''.term''"
    | "s \<noteq> ''.csg''" "s \<noteq> ''.ast''" "s \<noteq> ''.term''"
    by blast
  then show ?thesis
  proof cases
    case 1
    then show ?thesis
      using dispatch_csg [of f out E d f' r] assms
      by (auto simp: export_csg_def emit_def split: if_splits)
  next
    case 2
    then show ?thesis
      using dispatch_ast [of f out E d f' r] assms
      by (auto simp: export_ast_def emit_def split: if_splits)
  next
    case 3
    then show ?thesis
      using dispatch_term [of f out E d f' r] assms
      by (auto simp: export_term_def seqs.simps emit_def split: option.splits if_splits)
  next
    case 4
    have "WriteDeps p q \<in> set (fst (export_evaluated E out d f' r))"
      using assms(2) dispatch_evaluated [OF assms(1) 4, of E d f' r] by simp
    then have "d = Some p \<and> deps_geom_out out = Some q"
      by (rule export_evaluated_deps)
    then show ?thesis
      by (simp add: deps_geom_out_suffix [OF assms(1)] split: if_splits)
  qed
qed

lemma echostream_no_deps:
  "WriteDeps p q \<notin> set (fst (open_echostream E out))"
  by (simp add: open_echostream_def emit_def split: option.splits)

lemma cmdline_deps:
  assumes "WriteDeps p q \<in> set (trace (cmdline E d fn f r))"
  shows "suffix_of E f \<in> set [''.stl'', ''.off'', ''.amf'', ''.dxf'', ''.svg'', ''.png'']
     \<and> d = Some p \<and> q = f"
proof (cases "suffix_of E f \<in> set recognized_suffixes")
  case False
  then show ?thesis
    using assms by (simp add: cmdline_unknown trace_def)
next
  case True
  then obtain out where out: "select_output_file (suffix_of E f) f = Some out"
    by (rule select_of_suffix)
  show ?thesis
  proof (cases E fn rule: load_script_cases)
    case unreadable
    show ?thesis
      using assms
      by (simp add: cmdline_not_loaded [OF out unreadable(2)] trace_def echostream_no_deps)
  next
    case (unparsable c)
    show ?thesis
      using assms
      by (simp add: cmdline_not_loaded [OF out unparsable(3)] trace_def echostream_no_deps)
  next
    case (loaded c)
    have "WriteDeps p q \<in> set (fst (dispatch E out d f r))"
      using assms
      by (simp add: cmdline_loaded [OF out loaded(3)] trace_def echostream_no_deps
          split: option.splits)
    then show ?thesis by (rule dispatch_deps [OF out])
  qed
qed

lemma export_evaluated_echo_deps:
  assumes "select_output_file ''.echo'' f = Some out"
  shows "snd (export_evaluated E out (Some p) f' r) = Some (Return 1)"
proof -
  have wd: "write_dependencies E out (Some p) f' =
     leave [Print (''Output file:'' @ f' @ ''\<newline>''),
            Print ''Sorry, don't know how to write deps for that file type. Exiting\<newline>'']
       (Return 1)"
    by (simp add: write_dependencies_def deps_geom_out_suffix [OF assms])
  show ?thesis
  proof (cases "snd (snd (evaluate_geometry E out r))")
    case None
    then show ?thesis
      by (simp add: export_evaluated_def Let_def seqs_fall seqs_emit wd seqs_leave)
  next
    case (Some x)
    then have "x = Return 1"
      by (auto simp: evaluate_geometry_def emit_def leave_def split: if_splits option.splits)
    then show ?thesis
      using Some by (simp add: export_evaluated_def Let_def seqs_stop)
  qed
qed

lemma cmdline_echo_deps:
  assumes "suffix_of E f = ''.echo''"
  shows "status (cmdline E (Some p) fn f r) = Return 1"
proof -
  have "suffix_of E f \<in> set recognized_suffixes"
    using assms by (simp add: recognized_suffixes_def)
  then obtain out where out: "select_output_file (suffix_of E f) f = Some out"
    by (rule select_of_suffix)
  then have sel: "select_output_file ''.echo'' f = Some out"
    using assms by simp
  have disp: "dispatch E out (Some p) f r = export_evaluated E out (Some p) f r"
    using dispatch_evaluated [OF sel] by simp
  show ?thesis
  proof (cases E fn rule: load_script_cases)
    case unreadable
    show ?thesis
      by (simp add: cmdline_not_loaded [OF out unreadable(2)] status_def)
  next
    case (unparsable c)
    show ?thesis
      by (simp add: cmdline_not_loaded [OF out unparsable(3)] status_def)
  next
    case (loaded c)
    show ?thesis
      by (simp add: cmdline_loaded [OF out loaded(3)] status_def disp
          export_evaluated_echo_deps [OF sel])
  qed
qed

lemma cmdline_dump_ignores_deps:
  assumes "suffix_of E f \<in> set [''.csg'', ''.ast'', ''.term'']"
  shows "cmdline E d fn f r = cmdline E None fn f r"
proof -
  have "suffix_of E f \<in> set recognized_suffixes"
    using assms by (auto simp: recognized_suffixes_def)
  then obtain out where out: "select_output_file (suffix_of E f) f = Some out"
    by (rule select_of_suffix)
  have "dispatch E out d f r = dispatch E out None f r"
    using assms by (auto simp: dispatch_def select_fields [OF out])
  then show ?thesis
    by (simp add: cmdline_known [OF out])
qed

subsection \<open>A destination that cannot be opened\<close>

lemma output_of_append: "output_of p (xs @ ys) = output_of p xs @ output_of p ys"
  by (simp add: output_of_def List.map_filter_def)

lemma output_of_Nil: "output_of p [] = []"
  by (simp add: output_of_def)

lemma output_of_Cons:
  "output_of p (e # es) =
     (case written_to p e of None \<Rightarrow> output_of p es | Some s \<Rightarrow> s @ output_of p es)"
  by (simp add: output_of_def split: option.splits)

lemma export_evaluated_png:
  assumes "select_output_file ''.png'' f = Some out"
  shows "export_evaluated E out d f' r =
     (case snd (snd (evaluate_geometry E out r)) of
        Some x \<Rightarrow> snd (evaluate_geometry E out r)
      | None \<Rightarrow>
          (case snd (write_dependencies E out d f') of
             Some x \<Rightarrow>
               (fst (snd (evaluate_geometry E out r)) @ [CurrentPath original_path] @
                fst (write_dependencies E out d f'), Some x)
           | None \<Rightarrow>
               (fst (snd (evaluate_geometry E out r)) @ [CurrentPath original_path] @
                fst (write_dependencies E out d f') @
                fst (export_image E out (fst (evaluate_geometry E out r)) r),
                snd (export_image E out (fst (evaluate_geometry E out r)) r))))"
  by (simp add: export_evaluated_def Let_def export_geometry_def select_fields [OF assms]
      seqs.simps emit_def split: option.splits)

lemma evaluate_geometry_cases [case_names skipped evaluated empty]:
  obtains "evaluate_geometry E out r = (None, emit [])"
  | g where "evaluate_geometry E out r = (Some g, emit [EvaluateGeometry])"
  | "evaluate_geometry E out r =
       (None, leave [EvaluateGeometry, Print ''No top-level object found.''] (Return 1))"
proof (cases "skips_evaluation out r")
  case True
  then show ?thesis using that(1) by (simp add: evaluate_geometry_def)
next
  case False
  show ?thesis
  proof (cases "root_geom E")
    case None
    then show ?thesis using that(3) False by (simp add: evaluate_geometry_def)
  next
    case (Some g)
    then show ?thesis using that(2) [of g] False by (simp add: evaluate_geometry_def)
  qed
qed

lemma write_dependencies_png_cases:
  assumes "select_output_file ''.png'' f = Some out"
  obtains "write_dependencies E out d f' =
             emit (case d of None \<Rightarrow> [] | Some p \<Rightarrow> [WriteDeps p f])"
  | p where "d = Some p"
      "write_dependencies E out d f' =
         leave [WriteDeps p f, Print ''error writing deps''] (Return 1)"
proof (cases d)
  case None
  then show ?thesis using that(1) by (simp add: write_dependencies_def)
next
  case (Some p)
  show ?thesis
  proof (cases "write_deps E p f = 0")
    case True
    then show ?thesis
      using that(2) [of p] Some
      by (simp add: write_dependencies_def deps_geom_out_suffix [OF assms])
  next
    case False
    then show ?thesis
      using that(1) Some
      by (simp add: write_dependencies_def deps_geom_out_suffix [OF assms])
  qed
qed

lemma export_image_png:
  assumes "select_output_file ''.png'' f = Some out"
  shows "export_image E out geom r =
     (if \<not> can_open E f then emit [OpenOut f False, Print (cant_open_msg f)]
      else if r = CGAL then emit [OpenOut f True, ExportPng geom, CloseOut f]
      else if r = THROWNTOGETHER
      then emit [OpenOut f True, ExportPngWithThrowntogether, CloseOut f]
      else emit [OpenOut f True, ExportPngWithOpencsg, CloseOut f])"
  by (simp add: export_image_def select_fields [OF assms])

lemma deps_events:
  "filter touches_output (case d of None \<Rightarrow> [] | Some p \<Rightarrow> [WriteDeps p f]) =
     (case d of None \<Rightarrow> [] | Some p \<Rightarrow> [WriteDeps p f])"
  "messages (case d of None \<Rightarrow> [] | Some p \<Rightarrow> [WriteDeps p f]) = []"
  "output_of q (case d of None \<Rightarrow> [] | Some p \<Rightarrow> [WriteDeps p f]) = []"
  "OpenOut q ok \<notin> set (case d of None \<Rightarrow> [] | Some p \<Rightarrow> [WriteDeps p f])"
  by (simp_all add: messages_Nil messages_Cons output_of_Nil output_of_Cons split: option.splits)

lemma unwritable_png:
  assumes s: "suffix_of E f = ''.png''"
    and o: "OpenOut f False \<in> set (trace (cmdline E d fn f r))"
  shows "status (cmdline E d fn f r) = Return 0
    \<and> messages (trace (cmdline E d fn f r)) = [cant_open_msg f]
    \<and> output_of f (trace (cmdline E d fn f r)) = []
    \<and> filter touches_output (trace (cmdline E d fn f r)) =
        (case d of None \<Rightarrow> [] | Some p \<Rightarrow> [WriteDeps p f]) @ [OpenOut f False]"
proof -
  have "suffix_of E f \<in> set recognized_suffixes"
    using s by (simp add: recognized_suffixes_def)
  then obtain out where out: "select_output_file (suffix_of E f) f = Some out"
    by (rule select_of_suffix)
  then have sel: "select_output_file ''.png'' f = Some out"
    using s by simp
  have echo: "open_echostream E out = emit []"
    using no_echostream [OF sel] by simp
  have disp: "dispatch E out d f r = export_evaluated E out d f r"
    using dispatch_evaluated [OF sel] by simp
  note img = export_image_png [OF sel]
  show ?thesis
  proof (cases E fn rule: load_script_cases)
    case unreadable
    show ?thesis
      using o by (simp add: cmdline_not_loaded [OF out unreadable(2)] echo fst_emit trace_def)
  next
    case (unparsable c)
    show ?thesis
      using o by (simp add: cmdline_not_loaded [OF out unparsable(3)] echo fst_emit trace_def)
  next
    case (loaded c)
    note run = cmdline_loaded [OF out loaded(3), of d r]
    show ?thesis
    proof (cases rule: evaluate_geometry_cases [where E = E and out = out and r = r])
      case empty
      show ?thesis
        using o
        by (simp add: run echo disp export_evaluated_png [OF sel] empty fst_emit snd_emit
            fst_leave snd_leave trace_def)
    next
      case skipped
      consider (written) "write_dependencies E out d f =
             emit (case d of None \<Rightarrow> [] | Some p \<Rightarrow> [WriteDeps p f])"
        | (failed) p where "d = Some p"
            "write_dependencies E out d f =
               leave [WriteDeps p f, Print ''error writing deps''] (Return 1)"
        by (rule write_dependencies_png_cases [OF sel])
      then show ?thesis
      proof cases
        case (failed p)
        show ?thesis
          using o
          by (simp add: run echo disp export_evaluated_png [OF sel] skipped failed(2) fst_emit
              snd_emit fst_leave snd_leave trace_def)
      next
        case written
        show ?thesis
          using o
          by (simp add: run echo disp export_evaluated_png [OF sel] skipped written img
              fst_emit snd_emit trace_def status_def messages_append messages_Nil
              messages_Cons output_of_append output_of_Nil output_of_Cons deps_events
              split: if_splits)
      qed
    next
      case (evaluated g)
      consider (written) "write_dependencies E out d f =
             emit (case d of None \<Rightarrow> [] | Some p \<Rightarrow> [WriteDeps p f])"
        | (failed) p where "d = Some p"
            "write_dependencies E out d f =
               leave [WriteDeps p f, Print ''error writing deps''] (Return 1)"
        by (rule write_dependencies_png_cases [OF sel])
      then show ?thesis
      proof cases
        case (failed p)
        show ?thesis
          using o
          by (simp add: run echo disp export_evaluated_png [OF sel] evaluated failed(2) fst_emit
              snd_emit fst_leave snd_leave trace_def)
      next
        case written
        show ?thesis
          using o
          by (simp add: run echo disp export_evaluated_png [OF sel] evaluated written img
              fst_emit snd_emit trace_def status_def messages_append messages_Nil
              messages_Cons output_of_append output_of_Nil output_of_Cons deps_events
              split: if_splits)
      qed
    qed
  qed
qed

lemma unwritable_dump:
  assumes s: "suffix_of E f \<in> set [''.csg'', ''.ast'', ''.term'']"
    and o: "OpenOut f False \<in> set (trace (cmdline E d fn f r))"
  shows "status (cmdline E d fn f r) = Return 0
    \<and> messages (trace (cmdline E d fn f r)) = [cant_open_msg f]
    \<and> output_of f (trace (cmdline E d fn f r)) = []
    \<and> filter touches_output (trace (cmdline E d fn f r)) = [OpenOut f False]"
proof -
  have "suffix_of E f \<in> set recognized_suffixes"
    using s by (auto simp: recognized_suffixes_def)
  then obtain out where out: "select_output_file (suffix_of E f) f = Some out"
    by (rule select_of_suffix)
  have echo: "open_echostream E out = emit []"
    using no_echostream [OF out] s by auto
  have disp: "dispatch E out d f r = export_csg E f \<or> dispatch E out d f r = export_ast E f
      \<or> dispatch E out d f r = export_term E f"
    using s dispatch_csg [of f out E d f r] dispatch_ast [of f out E d f r]
      dispatch_term [of f out E d f r] out
    by auto
  show ?thesis
  proof (cases E fn rule: load_script_cases)
    case unreadable
    show ?thesis
      using o by (simp add: cmdline_not_loaded [OF out unreadable(2)] echo fst_emit trace_def)
  next
    case (unparsable c)
    show ?thesis
      using o by (simp add: cmdline_not_loaded [OF out unparsable(3)] echo fst_emit trace_def)
  next
    case (loaded c)
    note run = cmdline_loaded [OF out loaded(3), of d r]
    from disp show ?thesis
    proof (elim disjE)
      assume "dispatch E out d f r = export_csg E f"
      then show ?thesis
        using o
        by (simp add: run echo export_csg_def fst_emit snd_emit trace_def status_def
            messages_Nil messages_Cons output_of_Nil output_of_Cons split: if_splits)
    next
      assume "dispatch E out d f r = export_ast E f"
      then show ?thesis
        using o
        by (simp add: run echo export_ast_def fst_emit snd_emit trace_def status_def
            messages_Nil messages_Cons output_of_Nil output_of_Cons split: if_splits)
    next
      assume "dispatch E out d f r = export_term E f"
      then show ?thesis
        using o
        by (simp add: run echo export_term_def seqs_emit fst_emit snd_emit trace_def status_def
            messages_Nil messages_Cons output_of_Nil output_of_Cons
            split: if_splits option.splits)
    qed
  qed
qed

subsection \<open>Every run returns\<close>

text \<open>
  The exporters are reached with a null \<open>root_geom\<close> only when the evaluation was
  spared, and then none of their five pointers is set: no run dereferences the null
  pointer, and every run returns 0 or 1.
\<close>

lemma snd_seqs: "snd (seqs ss) = Some x \<Longrightarrow> \<exists>s \<in> set ss. snd s = Some x"
  by (induction ss) (auto simp: seqs.simps split: option.splits)

lemma evaluate_geometry_returns:
  "snd (snd (evaluate_geometry E out r)) = Some x \<Longrightarrow> x = Return 1"
  by (auto simp: evaluate_geometry_def emit_def leave_def split: if_splits option.splits)

lemma write_dependencies_returns:
  "snd (write_dependencies E out d f) = Some x \<Longrightarrow> x = Return 1"
  by (auto simp: write_dependencies_def emit_def leave_def split: if_splits option.splits)

lemma export_image_falls: "snd (export_image E out geom r) = None"
  by (simp add: export_image_def emit_def split: option.splits)

lemma export_geometry_returns:
  assumes "snd (export_geometry file geom nd fmt) = Some x"
    and "file = None \<or> geom \<noteq> None"
  shows "x = Return 1"
  using assms
  by (auto simp: export_geometry_def checkAndExport_def emit_def leave_def
      split: if_splits option.splits)

lemma geometry_present:
  assumes "select_output_file s f = Some out"
    and "snd (snd (evaluate_geometry E out r)) = None"
  shows "(stl_output_file out = None \<and> off_output_file out = None \<and> amf_output_file out = None
      \<and> dxf_output_file out = None \<and> svg_output_file out = None)
     \<or> fst (evaluate_geometry E out r) \<noteq> None"
  using assms(2)
  by (auto simp: evaluate_geometry_def skips_evaluation_def select_fields [OF assms(1)]
      emit_def leave_def split: if_splits option.splits)

lemma export_evaluated_returns:
  assumes "select_output_file s f = Some out"
    and "snd (export_evaluated E out d f' r) = Some x"
  shows "x = Return 1"
proof (cases "snd (snd (evaluate_geometry E out r))")
  case (Some y)
  then have "export_evaluated E out d f' r = snd (evaluate_geometry E out r)"
    by (simp add: export_evaluated_def Let_def seqs_stop)
  then show ?thesis
    using assms(2) evaluate_geometry_returns [of E out r x] by simp
next
  case None
  note g = geometry_present [OF assms(1) None]
  from assms(2) obtain s where
    s: "s \<in> set [snd (evaluate_geometry E out r), emit [CurrentPath original_path],
         write_dependencies E out d f',
         export_geometry (stl_output_file out) (fst (evaluate_geometry E out r)) 3 OPENSCAD_STL,
         export_geometry (off_output_file out) (fst (evaluate_geometry E out r)) 3 OPENSCAD_OFF,
         export_geometry (amf_output_file out) (fst (evaluate_geometry E out r)) 3 OPENSCAD_AMF,
         export_geometry (dxf_output_file out) (fst (evaluate_geometry E out r)) 2 OPENSCAD_DXF,
         export_geometry (svg_output_file out) (fst (evaluate_geometry E out r)) 2 OPENSCAD_SVG,
         export_image E out (fst (evaluate_geometry E out r)) r]"
    and m: "snd s = Some x"
    unfolding export_evaluated_def Let_def by (blast dest: snd_seqs)
  from s m g None show ?thesis
    by (auto simp: snd_emit export_image_falls
        dest: write_dependencies_returns export_geometry_returns)
qed

lemma dispatch_returns:
  assumes "select_output_file s f = Some out"
    and "snd (dispatch E out d f' r) = Some x"
  shows "x = Return 1"
proof -
  consider "s = ''.csg''" | "s = ''.ast''" | "s = ''.term''"
    | "s \<noteq> ''.csg''" "s \<noteq> ''.ast''" "s \<noteq> ''.term''"
    by blast
  then show ?thesis
  proof cases
    case 1
    then show ?thesis
      using dispatch_csg [of f out E d f' r] assms
      by (auto simp: export_csg_def emit_def split: if_splits)
  next
    case 2
    then show ?thesis
      using dispatch_ast [of f out E d f' r] assms
      by (auto simp: export_ast_def emit_def split: if_splits)
  next
    case 3
    then show ?thesis
      using dispatch_term [of f out E d f' r] assms
      by (auto simp: export_term_def seqs.simps emit_def split: option.splits if_splits)
  next
    case 4
    then show ?thesis
      using export_evaluated_returns [OF assms(1), of E d f' r x]
        dispatch_evaluated [OF assms(1) 4, of E d f' r] assms(2)
      by simp
  qed
qed

lemma cmdline_returns:
  "status (cmdline E d fn f r) = Return 0 \<or> status (cmdline E d fn f r) = Return 1"
proof (cases "suffix_of E f \<in> set recognized_suffixes")
  case False
  then show ?thesis
    by (simp add: cmdline_unknown status_def)
next
  case True
  then obtain out where out: "select_output_file (suffix_of E f) f = Some out"
    by (rule select_of_suffix)
  show ?thesis
  proof (cases E fn rule: load_script_cases)
    case unreadable
    show ?thesis
      by (simp add: cmdline_not_loaded [OF out unreadable(2)] status_def)
  next
    case (unparsable c)
    show ?thesis
      by (simp add: cmdline_not_loaded [OF out unparsable(3)] status_def)
  next
    case (loaded c)
    show ?thesis
      using dispatch_returns [OF out, of E d f r]
      by (cases "snd (dispatch E out d f r)")
         (simp_all add: cmdline_loaded [OF out loaded(3)] status_def)
  qed
qed

subsection \<open>Selecting the output format\<close>

text \<open>
  C8. The format is chosen from the lower-cased suffix of the destination name alone.
  The choice is total and exclusive: either the suffix is none of the ten and the error
  arm is taken, or the suffix is one of the ten and exactly one of the ten locals is set,
  to the destination name. Two destination names whose suffixes agree up to the case of
  their letters set the same local.
\<close>

theorem format_selection:
  "(case select_output_file (suffix_of E f) f of
      None \<Rightarrow> suffix_of E f \<notin> set recognized_suffixes
    | Some out \<Rightarrow>
        suffix_of E f \<in> set recognized_suffixes \<and>
        filter (\<lambda>p. p \<noteq> None) (assigned out) = [Some f])
   \<and> (to_lower (extension_str E f) = to_lower (extension_str E' g) \<longrightarrow>
        map_option format_tag (select_output_file (suffix_of E f) f) =
        map_option format_tag (select_output_file (suffix_of E' g) g))"
proof (intro conjI impI)
  show "case select_output_file (suffix_of E f) f of
      None \<Rightarrow> suffix_of E f \<notin> set recognized_suffixes
    | Some out \<Rightarrow>
        suffix_of E f \<in> set recognized_suffixes \<and>
        filter (\<lambda>p. p \<noteq> None) (assigned out) = [Some f]"
    by (rule select_total_exclusive)
next
  assume "to_lower (extension_str E f) = to_lower (extension_str E' g)"
  then have "suffix_of E f = suffix_of E' g"
    by (simp add: suffix_of_def)
  then show "map_option format_tag (select_output_file (suffix_of E f) f) =
        map_option format_tag (select_output_file (suffix_of E' g) g)"
    using select_tag_suffix [of "suffix_of E' g" f g] by simp
qed

theorem format_selection_witness:
  "to_lower (extension_str sample_env ''a.STL'') = to_lower (extension_str sample_env ''b.stl'')
   \<and> map_option format_tag (select_output_file (suffix_of sample_env ''a.STL'') ''a.STL'') =
     map_option format_tag (select_output_file (suffix_of sample_env ''b.stl'') ''b.stl'')
   \<and> map_option format_tag (select_output_file (suffix_of sample_env ''a.STL'') ''a.STL'') =
     Some [True, False, False, False, False, False, False, False, False, False]"
proof -
  have h: "to_lower (extension_str sample_env ''a.STL'') =
           to_lower (extension_str sample_env ''b.stl'')"
    by code_simp
  have t: "map_option format_tag (select_output_file (suffix_of sample_env ''a.STL'') ''a.STL'') =
     Some [True, False, False, False, False, False, False, False, False, False]"
    by code_simp
  from format_selection [of sample_env "''a.STL''" sample_env "''b.stl''"] h t
  show ?thesis by simp
qed

subsection \<open>Unknown suffixes\<close>

text \<open>
  C4. When the lower-cased suffix of the destination name is none of the ten, the run
  prints the unknown-suffix message and returns 1; it has then called the parser's
  initialisation and nothing else, so it neither opens nor writes an output file.
\<close>

theorem unknown_suffix_fails:
  assumes "suffix_of E output_file \<notin> set recognized_suffixes"
  shows "status (cmdline E deps_output_file filename output_file renderer) = Return 1
    \<and> trace (cmdline E deps_output_file filename output_file renderer) =
        [ParserInit, Print (''Unknown suffix for output file '' @ output_file @ ''\<newline>'')]
    \<and> \<not> list_ex touches_output (trace (cmdline E deps_output_file filename output_file renderer))"
  using assms by (simp add: cmdline_unknown status_def trace_def)

theorem unknown_suffix_fails_witness:
  "suffix_of sample_env ''out.step'' \<notin> set recognized_suffixes
   \<and> status (cmdline sample_env (Some ''out.d'') ''in.scad'' ''out.step'' OPENCSG) = Return 1
   \<and> trace (cmdline sample_env (Some ''out.d'') ''in.scad'' ''out.step'' OPENCSG) =
       [ParserInit, Print ''Unknown suffix for output file out.step\<newline>'']"
proof -
  have h: "suffix_of sample_env ''out.step'' \<notin> set recognized_suffixes"
    by code_simp
  from unknown_suffix_fails [OF h, where deps_output_file = "Some ''out.d''"
      and filename = "''in.scad''" and renderer = OPENCSG] h
  show ?thesis by simp
qed

subsection \<open>The \<open>.csg\<close> dump\<close>

text \<open>
  C7, as the code has it. A run whose destination has the suffix \<open>.csg\<close> calls neither
  the boolean-term evaluator nor the geometry evaluator. When the script is read and
  parsed and the destination can be opened, the run returns 0 and what it writes to the
  destination is \<open>tree.getString\<close> of the root node, the text dump of the node tree,
  followed by a newline.
\<close>

theorem csg_export:
  assumes "suffix_of E f = ''.csg''"
  shows "EvaluateCSGTerm \<notin> set (trace (cmdline E d fn f r))
    \<and> EvaluateGeometry \<notin> set (trace (cmdline E d fn f r))
    \<and> (read_file E fn = Some c \<and> parse E (c @ ''\<newline>'' @ commandline_commands E) \<and>
        can_open E f \<longrightarrow>
          status (cmdline E d fn f r) = Return 0 \<and>
          TreeGetString \<in> set (trace (cmdline E d fn f r)) \<and>
          output_of f (trace (cmdline E d fn f r)) = tree_getString E @ ''\<newline>'')"
proof -
  have "suffix_of E f \<in> set recognized_suffixes"
    using assms by (simp add: recognized_suffixes_def)
  then obtain out where out: "select_output_file (suffix_of E f) f = Some out"
    by (rule select_of_suffix)
  then have sel: "select_output_file ''.csg'' f = Some out"
    using assms by simp
  have echo: "open_echostream E out = emit []"
    using no_echostream [OF sel] by simp
  have none: "EvaluateCSGTerm \<notin> set (trace (cmdline E d fn f r))
    \<and> EvaluateGeometry \<notin> set (trace (cmdline E d fn f r))"
  proof (cases E fn rule: load_script_cases)
    case unreadable
    show ?thesis
      by (simp add: cmdline_not_loaded [OF out unreadable(2)] echo fst_emit trace_def)
  next
    case (unparsable c)
    show ?thesis
      by (simp add: cmdline_not_loaded [OF out unparsable(3)] echo fst_emit trace_def)
  next
    case (loaded c)
    show ?thesis
      by (simp add: cmdline_loaded [OF out loaded(3)] echo fst_emit trace_def
          dispatch_csg [OF sel] export_csg_def snd_emit)
  qed
  have written: "status (cmdline E d fn f r) = Return 0 \<and>
          TreeGetString \<in> set (trace (cmdline E d fn f r)) \<and>
          output_of f (trace (cmdline E d fn f r)) = tree_getString E @ ''\<newline>''"
    if "read_file E fn = Some c" "parse E (c @ ''\<newline>'' @ commandline_commands E)"
       "can_open E f"
    using that(3)
    by (simp add: cmdline_loaded [OF out load_script_loaded [OF that(1,2)]] echo fst_emit
        dispatch_csg [OF sel] export_csg_def snd_emit status_def trace_def output_of_def
        List.map_filter_simps)
  from none written show ?thesis by blast
qed

theorem csg_export_witness:
  "suffix_of sample_env ''out.csg'' = ''.csg''
   \<and> read_file sample_env ''in.scad'' = Some ''square(1);''
   \<and> parse sample_env (''square(1);'' @ ''\<newline>'' @ commandline_commands sample_env)
   \<and> can_open sample_env ''out.csg''
   \<and> EvaluateCSGTerm \<notin> set (trace (cmdline sample_env None ''in.scad'' ''out.csg'' OPENCSG))
   \<and> EvaluateGeometry \<notin> set (trace (cmdline sample_env None ''in.scad'' ''out.csg'' OPENCSG))
   \<and> status (cmdline sample_env None ''in.scad'' ''out.csg'' OPENCSG) = Return 0
   \<and> output_of ''out.csg'' (trace (cmdline sample_env None ''in.scad'' ''out.csg'' OPENCSG)) =
       tree_getString sample_env @ ''\<newline>''"
proof -
  have h: "suffix_of sample_env ''out.csg'' = ''.csg''"
    by code_simp
  have e: "read_file sample_env ''in.scad'' = Some ''square(1);''
    \<and> parse sample_env (''square(1);'' @ ''\<newline>'' @ commandline_commands sample_env)
    \<and> can_open sample_env ''out.csg''"
    by (simp add: sample_env_def)
  from csg_export [OF h, where d = None and fn = "''in.scad''" and r = OPENCSG
      and c = "''square(1);''"] h e
  show ?thesis by blast
qed

text \<open>
  C7 as the specification states it does not hold: in this run, which writes the
  \<open>.csg\<close> file and returns 0, the boolean-term evaluator is never called, and the text
  written is the dump of the node tree, not the dump \<open>square0\<close> of the term.
\<close>

theorem csg_export_counterexample:
  "suffix_of sample_env ''out.csg'' = ''.csg''
   \<and> status (cmdline sample_env None ''in.scad'' ''out.csg'' OPENCSG) = Return 0
   \<and> EvaluateCSGTerm \<notin> set (trace (cmdline sample_env None ''in.scad'' ''out.csg'' OPENCSG))
   \<and> root_raw_term sample_env = Some ''square0''
   \<and> output_of ''out.csg'' (trace (cmdline sample_env None ''in.scad'' ''out.csg'' OPENCSG)) =
       ''group() { square(size = [1, 1], center = false); }\<newline>''"
  by code_simp

subsection \<open>No top-level object on the geometry path\<close>

text \<open>
  C3. On the path that evaluates the geometry for an export (the suffixes \<open>.stl\<close>,
  \<open>.off\<close>, \<open>.amf\<close>, \<open>.dxf\<close>, \<open>.svg\<close>, and \<open>.png\<close> in full-render mode), when the
  script is read and parsed and the evaluation returns no geometry, the run evaluates
  once, prints \<open>No top-level object found.\<close> and nothing else, returns 1, and makes no
  call that opens, writes or exports an output file or writes the dependency file.
\<close>

theorem empty_geometry_fails:
  assumes "suffix_of E f \<in> set [''.stl'', ''.off'', ''.amf'', ''.dxf'', ''.svg'']
      \<or> suffix_of E f = ''.png'' \<and> r = CGAL"
    and "read_file E fn = Some c" and "parse E (c @ ''\<newline>'' @ commandline_commands E)"
    and "root_geom E = None"
  shows "status (cmdline E d fn f r) = Return 1
    \<and> count_list (trace (cmdline E d fn f r)) EvaluateGeometry = 1
    \<and> messages (trace (cmdline E d fn f r)) = [''No top-level object found.'']
    \<and> \<not> list_ex touches_output (trace (cmdline E d fn f r))"
  by (simp add: cmdline_empty_geometry [OF assms] status_def trace_def messages_def)

theorem empty_geometry_fails_witness:
  "suffix_of empty_env ''out.off'' = ''.off''
   \<and> read_file empty_env ''in.scad'' = Some ''square(1);''
   \<and> root_geom empty_env = None
   \<and> status (cmdline empty_env (Some ''out.d'') ''in.scad'' ''out.off'' OPENCSG) = Return 1
   \<and> messages (trace (cmdline empty_env (Some ''out.d'') ''in.scad'' ''out.off'' OPENCSG)) =
       [''No top-level object found.'']
   \<and> \<not> list_ex touches_output
         (trace (cmdline empty_env (Some ''out.d'') ''in.scad'' ''out.off'' OPENCSG))"
proof -
  have s: "suffix_of empty_env ''out.off'' = ''.off''"
    by code_simp
  then have h1: "suffix_of empty_env ''out.off'' \<in> set [''.stl'', ''.off'', ''.amf'', ''.dxf'', ''.svg'']
      \<or> suffix_of empty_env ''out.off'' = ''.png'' \<and> OPENCSG = CGAL"
    by simp
  have h2: "read_file empty_env ''in.scad'' = Some ''square(1);''"
    by (simp add: empty_env_def sample_env_def)
  have h3: "parse empty_env (''square(1);'' @ ''\<newline>'' @ commandline_commands empty_env)"
    by (simp add: empty_env_def sample_env_def)
  have h4: "root_geom empty_env = None"
    by (simp add: empty_env_def)
  from empty_geometry_fails [OF h1 h2 h3 h4, where d = "Some ''out.d''"] s h2 h4
  show ?thesis by simp
qed

subsection \<open>No top-level object on the \<open>.term\<close> path\<close>

text \<open>
  C9. A run whose destination has the suffix \<open>.term\<close>, whose script is read and parsed,
  whose boolean-term evaluation returns a null term and whose destination can be opened
  does not fail: it prints no message, writes the line \<open>No top-level CSG object\<close> to the
  destination and returns 0. With the same script a destination with a solid or drawing
  suffix returns 1 when the geometry evaluation returns nothing.
\<close>

theorem term_export_empty:
  assumes "suffix_of E f = ''.term''"
    and "read_file E fn = Some c" and "parse E (c @ ''\<newline>'' @ commandline_commands E)"
    and "root_raw_term E = None" and "can_open E f"
  shows "status (cmdline E d fn f r) = Return 0
    \<and> EvaluateCSGTerm \<in> set (trace (cmdline E d fn f r))
    \<and> OpenOut f True \<in> set (trace (cmdline E d fn f r))
    \<and> output_of f (trace (cmdline E d fn f r)) = ''No top-level CSG object\<newline>''
    \<and> messages (trace (cmdline E d fn f r)) = []
    \<and> (suffix_of E g \<in> set [''.stl'', ''.off'', ''.amf'', ''.dxf'', ''.svg''] \<and>
        root_geom E = None \<longrightarrow>
          status (cmdline E d fn g r) = Return 1)"
proof -
  have "suffix_of E f \<in> set recognized_suffixes"
    using assms(1) by (simp add: recognized_suffixes_def)
  then obtain out where out: "select_output_file (suffix_of E f) f = Some out"
    by (rule select_of_suffix)
  then have sel: "select_output_file ''.term'' f = Some out"
    using assms(1) by simp
  have echo: "open_echostream E out = emit []"
    using no_echostream [OF sel] by simp
  have run: "cmdline E d fn f r =
     ([ParserInit, RegisterBuiltin, HandleDep fn, OpenIn fn True,
       Parse (c @ ''\<newline>'' @ commandline_commands E) True, HandleDependencies,
       CurrentPath fparent, SetDocumentPath, ResetIndexCounter, Instantiate, FindRootTag,
       SetRoot, EvaluateCSGTerm, CurrentPath original_path, OpenOut f True,
       WriteOut f ''No top-level CSG object\<newline>'', CloseOut f, DeleteRootNode], Return 0)"
    using assms(4,5)
    by (simp add: cmdline_loaded [OF out load_script_loaded [OF assms(2,3)]] echo
        dispatch_term [OF sel] export_term_def seqs_emit fst_emit snd_emit)
  have contrast: "status (cmdline E d fn g r) = Return 1"
    if "suffix_of E g \<in> set [''.stl'', ''.off'', ''.amf'', ''.dxf'', ''.svg'']"
       "root_geom E = None"
    using cmdline_empty_geometry [of E g r fn c d] that assms(2,3)
    by (auto simp: status_def)
  show ?thesis
    using contrast
    by (simp add: run status_def trace_def output_of_def messages_def)
qed

theorem term_export_empty_witness:
  "suffix_of empty_env ''out.term'' = ''.term''
   \<and> root_raw_term empty_env = None
   \<and> can_open empty_env ''out.term''
   \<and> status (cmdline empty_env None ''in.scad'' ''out.term'' OPENCSG) = Return 0
   \<and> output_of ''out.term'' (trace (cmdline empty_env None ''in.scad'' ''out.term'' OPENCSG)) =
       ''No top-level CSG object\<newline>''
   \<and> status (cmdline empty_env None ''in.scad'' ''out.stl'' OPENCSG) = Return 1"
proof -
  have h1: "suffix_of empty_env ''out.term'' = ''.term''"
    by code_simp
  have h2: "read_file empty_env ''in.scad'' = Some ''square(1);''"
    by (simp add: empty_env_def sample_env_def)
  have h3: "parse empty_env (''square(1);'' @ ''\<newline>'' @ commandline_commands empty_env)"
    by (simp add: empty_env_def sample_env_def)
  have h4: "root_raw_term empty_env = None"
    by (simp add: empty_env_def)
  have h5: "can_open empty_env ''out.term''"
    by (simp add: empty_env_def sample_env_def)
  have g1: "suffix_of empty_env ''out.stl'' = ''.stl''"
    by code_simp
  have g2: "root_geom empty_env = None"
    by (simp add: empty_env_def)
  from term_export_empty [OF h1 h2 h3 h4 h5, where g = "''out.stl''" and d = None and r = OPENCSG]
    h1 h4 h5 g1 g2
  show ?thesis by simp
qed

subsection \<open>The echo file\<close>

text \<open>
  C10. A run whose destination has the suffix \<open>.echo\<close> and can be opened opens it (so
  creates or truncates it) as its third call, after the initialisation of the parser and
  the registration of the builtins and before any call that opens or parses the script.
  When the script cannot be opened, or cannot be parsed, the run has opened the echo file
  all the same, and returns 1.
\<close>

theorem echo_file_created_first:
  assumes "suffix_of E f = ''.echo''" and "can_open E f"
  shows "(\<exists>post. trace (cmdline E d fn f r) =
            [ParserInit, RegisterBuiltin, OpenOut f True, SetOutputHandler f] @ post)
    \<and> \<not> list_ex reads_input (takeWhile (\<lambda>e. e \<noteq> OpenOut f True) (trace (cmdline E d fn f r)))
    \<and> (read_file E fn = None \<longrightarrow>
          cmdline E d fn f r =
            ([ParserInit, RegisterBuiltin, OpenOut f True, SetOutputHandler f, HandleDep fn,
              OpenIn fn False,
              Print (''Can't open input file '' @ [CHR 0x27] @ fn @ [CHR 0x27] @ ''!\<newline>'')],
             Return 1))
    \<and> (read_file E fn = Some c \<and> \<not> parse E (c @ ''\<newline>'' @ commandline_commands E) \<longrightarrow>
          cmdline E d fn f r =
            ([ParserInit, RegisterBuiltin, OpenOut f True, SetOutputHandler f, HandleDep fn,
              OpenIn fn True, Parse (c @ ''\<newline>'' @ commandline_commands E) False,
              Print (''Can't parse file '' @ [CHR 0x27] @ fn @ [CHR 0x27] @ ''!\<newline>'')],
             Return 1))"
proof -
  have "suffix_of E f \<in> set recognized_suffixes"
    using assms(1) by (simp add: recognized_suffixes_def)
  then obtain out where out: "select_output_file (suffix_of E f) f = Some out"
    by (rule select_of_suffix)
  then have sel: "select_output_file ''.echo'' f = Some out"
    using assms(1) by simp
  have echo: "open_echostream E out = emit [OpenOut f True, SetOutputHandler f]"
    using echostream [OF sel, of E] assms(2) by simp
  show ?thesis
  proof (cases E fn rule: load_script_cases)
    case unreadable
    show ?thesis
      using unreadable(1)
      by (simp add: cmdline_not_loaded [OF out unreadable(2)] echo fst_emit trace_def)
  next
    case (unparsable c')
    show ?thesis
      using unparsable(1,2)
      by (auto simp add: cmdline_not_loaded [OF out unparsable(3)] echo fst_emit trace_def)
  next
    case (loaded c')
    show ?thesis
      using loaded(1,2)
      by (auto simp add: cmdline_loaded [OF out loaded(3)] echo fst_emit trace_def)
  qed
qed

theorem echo_file_created_first_witness:
  "suffix_of broken_env ''out.echo'' = ''.echo''
   \<and> can_open broken_env ''out.echo''
   \<and> read_file broken_env ''missing.scad'' = None
   \<and> cmdline broken_env None ''missing.scad'' ''out.echo'' OPENCSG =
       ([ParserInit, RegisterBuiltin, OpenOut ''out.echo'' True, SetOutputHandler ''out.echo'',
         HandleDep ''missing.scad'', OpenIn ''missing.scad'' False,
         Print (''Can't open input file '' @ [CHR 0x27] @ ''missing.scad'' @ [CHR 0x27] @
                ''!\<newline>'')],
        Return 1)
   \<and> read_file broken_env ''in.scad'' = Some ''square(1);''
   \<and> \<not> parse broken_env (''square(1);'' @ ''\<newline>'' @ commandline_commands broken_env)
   \<and> cmdline broken_env None ''in.scad'' ''out.echo'' OPENCSG =
       ([ParserInit, RegisterBuiltin, OpenOut ''out.echo'' True, SetOutputHandler ''out.echo'',
         HandleDep ''in.scad'', OpenIn ''in.scad'' True,
         Parse (''square(1);'' @ ''\<newline>'' @ commandline_commands broken_env) False,
         Print (''Can't parse file '' @ [CHR 0x27] @ ''in.scad'' @ [CHR 0x27] @ ''!\<newline>'')],
        Return 1)"
proof -
  have h1: "suffix_of broken_env ''out.echo'' = ''.echo''"
    by code_simp
  have h2: "can_open broken_env ''out.echo''"
    by (simp add: broken_env_def sample_env_def)
  have a: "read_file broken_env ''missing.scad'' = None"
    by (simp add: broken_env_def sample_env_def)
  have b: "read_file broken_env ''in.scad'' = Some ''square(1);''"
    by (simp add: broken_env_def sample_env_def)
  have c: "\<not> parse broken_env (''square(1);'' @ ''\<newline>'' @ commandline_commands broken_env)"
    by (simp add: broken_env_def)
  from echo_file_created_first [OF h1 h2, where d = None and fn = "''missing.scad''" and r = OPENCSG]
    echo_file_created_first [OF h1 h2, where d = None and fn = "''in.scad''" and r = OPENCSG
      and c = "''square(1);''"]
    h1 h2 a b c
  show ?thesis by blast
qed

subsection \<open>The dimension check of the exporters\<close>

text \<open>
  C2, as the code has it. Take a run whose destination has a solid suffix (\<open>.stl\<close>,
  \<open>.off\<close>, \<open>.amf\<close>, required dimension 3) or a drawing suffix (\<open>.dxf\<close>, \<open>.svg\<close>,
  required dimension 2), whose script is read and parsed, whose evaluation returns a
  geometry, and whose dependency file, if one is asked for, is written. If the dimension
  of the geometry differs from the required one, the run prints one message, which names
  the required dimension only (\<open>Current top level object is not a 3D object.\<close>), returns
  1 and never calls the exporter. If the dimensions agree, the run prints nothing, calls
  \<open>exportFileByName\<close> once with the format and the destination, and returns 0.
\<close>

theorem dimension_check:
  assumes "(suffix_of E f, nd, fmt) \<in> set [(''.stl'', 3, OPENSCAD_STL), (''.off'', 3, OPENSCAD_OFF),
           (''.amf'', 3, OPENSCAD_AMF), (''.dxf'', 2, OPENSCAD_DXF), (''.svg'', 2, OPENSCAD_SVG)]"
    and "read_file E fn = Some c" and "parse E (c @ ''\<newline>'' @ commandline_commands E)"
    and "root_geom E = Some g"
    and "case d of None \<Rightarrow> True | Some p \<Rightarrow> write_deps E p f \<noteq> 0"
  shows "(getDimension g \<noteq> nd \<longrightarrow>
            status (cmdline E d fn f r) = Return 1 \<and>
            messages (trace (cmdline E d fn f r)) =
              [''Current top level object is not a '' @ format_unsigned nd @ ''D object.''] \<and>
            filter touches_output (trace (cmdline E d fn f r)) =
              (case d of None \<Rightarrow> [] | Some p \<Rightarrow> [WriteDeps p f]))
       \<and> (getDimension g = nd \<longrightarrow>
            status (cmdline E d fn f r) = Return 0 \<and>
            messages (trace (cmdline E d fn f r)) = [] \<and>
            filter touches_output (trace (cmdline E d fn f r)) =
              (case d of None \<Rightarrow> [] | Some p \<Rightarrow> [WriteDeps p f]) @ [ExportFileByName fmt f f])"
proof -
  have known: "suffix_of E f \<in> set recognized_suffixes"
    using assms(1) by (auto simp: recognized_suffixes_def)
  then obtain out where out: "select_output_file (suffix_of E f) f = Some out"
    by (rule select_of_suffix)
  have echo: "open_echostream E out = emit []"
    using no_echostream [OF out] assms(1) by auto
  have disp: "dispatch E out d f r = export_evaluated E out d f r"
    using dispatch_evaluated [OF out] assms(1) by auto
  have "suffix_of E f \<in> set [''.stl'', ''.off'', ''.amf'', ''.dxf'', ''.svg'', ''.png'']"
    using assms(1) by auto
  then have wd: "write_dependencies E out d f =
     emit (case d of None \<Rightarrow> [] | Some p \<Rightarrow> [WriteDeps p f])"
    using assms(5) by (rule write_dependencies_ok [OF out])
  note ev = export_evaluated_brep [OF out assms(1) assms(4), of d r]
  have deps: "filter touches_output (case d of None \<Rightarrow> [] | Some p \<Rightarrow> [WriteDeps p f]) =
      (case d of None \<Rightarrow> [] | Some p \<Rightarrow> [WriteDeps p f])"
    "messages (case d of None \<Rightarrow> [] | Some p \<Rightarrow> [WriteDeps p f]) = []"
    by (simp_all add: messages_Nil messages_Cons split: option.splits)
  show ?thesis
    by (simp add: cmdline_loaded [OF out load_script_loaded [OF assms(2,3)]] echo disp ev wd
        seqs_emit seqs_leave fst_emit snd_emit fst_leave snd_leave status_def trace_def
        messages_append messages_Nil messages_Cons deps)
qed

theorem dimension_check_witness:
  "root_geom sample_env = Some (Geometry 2)
   \<and> suffix_of sample_env ''out.stl'' = ''.stl''
   \<and> status (cmdline sample_env None ''in.scad'' ''out.stl'' OPENCSG) = Return 1
   \<and> messages (trace (cmdline sample_env None ''in.scad'' ''out.stl'' OPENCSG)) =
       [''Current top level object is not a 3D object.'']
   \<and> filter touches_output (trace (cmdline sample_env None ''in.scad'' ''out.stl'' OPENCSG)) = []
   \<and> suffix_of sample_env ''out.svg'' = ''.svg''
   \<and> write_deps sample_env ''out.d'' ''out.svg'' \<noteq> 0
   \<and> status (cmdline sample_env (Some ''out.d'') ''in.scad'' ''out.svg'' OPENCSG) = Return 0
   \<and> filter touches_output
         (trace (cmdline sample_env (Some ''out.d'') ''in.scad'' ''out.svg'' OPENCSG)) =
       [WriteDeps ''out.d'' ''out.svg'', ExportFileByName OPENSCAD_SVG ''out.svg'' ''out.svg'']"
proof -
  have s1: "suffix_of sample_env ''out.stl'' = ''.stl''"
    by code_simp
  have s2: "suffix_of sample_env ''out.svg'' = ''.svg''"
    by code_simp
  have t1: "(suffix_of sample_env ''out.stl'', 3, OPENSCAD_STL) \<in>
      set [(''.stl'', 3, OPENSCAD_STL), (''.off'', 3, OPENSCAD_OFF),
           (''.amf'', 3, OPENSCAD_AMF), (''.dxf'', 2, OPENSCAD_DXF), (''.svg'', 2, OPENSCAD_SVG)]"
    using s1 by simp
  have t2: "(suffix_of sample_env ''out.svg'', 2, OPENSCAD_SVG) \<in>
      set [(''.stl'', 3, OPENSCAD_STL), (''.off'', 3, OPENSCAD_OFF),
           (''.amf'', 3, OPENSCAD_AMF), (''.dxf'', 2, OPENSCAD_DXF), (''.svg'', 2, OPENSCAD_SVG)]"
    using s2 by simp
  have rd: "read_file sample_env ''in.scad'' = Some ''square(1);''"
    by (simp add: sample_env_def)
  have pa: "parse sample_env (''square(1);'' @ ''\<newline>'' @ commandline_commands sample_env)"
    by (simp add: sample_env_def)
  have ge: "root_geom sample_env = Some (Geometry 2)"
    by (simp add: sample_env_def)
  have wd: "write_deps sample_env ''out.d'' ''out.svg'' \<noteq> 0"
    by (simp add: sample_env_def)
  have d1: "case None of None \<Rightarrow> True | Some p \<Rightarrow> write_deps sample_env p ''out.stl'' \<noteq> 0"
    by simp
  have d2: "case Some ''out.d'' of None \<Rightarrow> True
            | Some p \<Rightarrow> write_deps sample_env p ''out.svg'' \<noteq> 0"
    using wd by simp
  have f3: "format_unsigned 3 = ''3''"
    by code_simp
  from dimension_check [OF t1 rd pa ge d1, where r = OPENCSG]
    dimension_check [OF t2 rd pa ge d2, where r = OPENCSG] s1 s2 ge wd f3
  show ?thesis by simp
qed

text \<open>
  C2 as the specification states it does not hold: the message does not name the actual
  dimension. Here the geometry has dimension 2 and the destination is an \<open>.stl\<close> file; the
  run returns 1, and the one message it prints has no occurrence of the digit 2.
\<close>

theorem dimension_check_counterexample:
  "root_geom sample_env = Some (Geometry 2)
   \<and> suffix_of sample_env ''out.stl'' = ''.stl''
   \<and> status (cmdline sample_env None ''in.scad'' ''out.stl'' OPENCSG) = Return 1
   \<and> messages (trace (cmdline sample_env None ''in.scad'' ''out.stl'' OPENCSG)) =
       [''Current top level object is not a 3D object.'']
   \<and> format_unsigned 2 = ''2''
   \<and> CHR ''2'' \<notin> set ''Current top level object is not a 3D object.''"
  by code_simp

subsection \<open>When the geometry is evaluated\<close>

text \<open>
  C1, as the code has it. In every run \<open>evaluateGeometry\<close> is called at most once. It
  is called only when the destination has a solid or drawing suffix (\<open>.stl\<close>, \<open>.off\<close>,
  \<open>.amf\<close>, \<open>.dxf\<close>, \<open>.svg\<close>), or has the suffix \<open>.png\<close> or \<open>.echo\<close> and the render
  mode is the full render. It is never called for \<open>.csg\<close>, \<open>.term\<close> and \<open>.ast\<close>, nor
  for \<open>.png\<close> and \<open>.echo\<close> in the preview and thrown-together modes.
\<close>

theorem geometry_evaluation_gate:
  "count_list (trace (cmdline E d fn f r)) EvaluateGeometry \<le> 1
   \<and> (EvaluateGeometry \<in> set (trace (cmdline E d fn f r)) \<longrightarrow>
        suffix_of E f \<in> set [''.stl'', ''.off'', ''.amf'', ''.dxf'', ''.svg'']
        \<or> suffix_of E f \<in> set [''.png'', ''.echo''] \<and> r = CGAL)
   \<and> (suffix_of E f \<in> set [''.csg'', ''.term'', ''.ast''] \<longrightarrow>
        EvaluateGeometry \<notin> set (trace (cmdline E d fn f r)))
   \<and> (suffix_of E f \<in> set [''.png'', ''.echo''] \<and> r \<noteq> CGAL \<longrightarrow>
        EvaluateGeometry \<notin> set (trace (cmdline E d fn f r)))"
proof -
  note c = cmdline_count [of E d fn f r]
  have zero: "EvaluateGeometry \<notin> set (trace (cmdline E d fn f r))"
    if "\<not> (suffix_of E f \<in> set [''.stl'', ''.off'', ''.amf'', ''.dxf'', ''.svg'']
         \<or> suffix_of E f \<in> set [''.png'', ''.echo''] \<and> r = CGAL)"
  proof -
    from c that have "count_list (trace (cmdline E d fn f r)) EvaluateGeometry = 0"
      by (simp split: if_splits)
    then show ?thesis by (simp add: count_list_0_iff)
  qed
  have one: "count_list (trace (cmdline E d fn f r)) EvaluateGeometry \<le> 1"
    using c by (simp split: if_splits)
  have a: "EvaluateGeometry \<in> set (trace (cmdline E d fn f r)) \<longrightarrow>
        suffix_of E f \<in> set [''.stl'', ''.off'', ''.amf'', ''.dxf'', ''.svg'']
        \<or> suffix_of E f \<in> set [''.png'', ''.echo''] \<and> r = CGAL"
    using zero by blast
  have b: "suffix_of E f \<in> set [''.csg'', ''.term'', ''.ast''] \<longrightarrow>
        EvaluateGeometry \<notin> set (trace (cmdline E d fn f r))"
    using zero by auto
  have e: "suffix_of E f \<in> set [''.png'', ''.echo''] \<and> r \<noteq> CGAL \<longrightarrow>
        EvaluateGeometry \<notin> set (trace (cmdline E d fn f r))"
    using zero by auto
  from one a b e show ?thesis by blast
qed

theorem geometry_evaluation_gate_witness:
  "suffix_of sample_env ''out.png'' \<in> set [''.png'', ''.echo''] \<and> OPENCSG \<noteq> CGAL
   \<and> EvaluateGeometry \<notin> set (trace (cmdline sample_env None ''in.scad'' ''out.png'' OPENCSG))
   \<and> suffix_of sample_env ''out.term'' \<in> set [''.csg'', ''.term'', ''.ast'']
   \<and> EvaluateGeometry \<notin> set (trace (cmdline sample_env None ''in.scad'' ''out.term'' CGAL))
   \<and> EvaluateGeometry \<in> set (trace (cmdline sample_env None ''in.scad'' ''out.stl'' CGAL))
   \<and> suffix_of sample_env ''out.stl'' \<in> set [''.stl'', ''.off'', ''.amf'', ''.dxf'', ''.svg'']
   \<and> count_list (trace (cmdline sample_env None ''in.scad'' ''out.stl'' CGAL)) EvaluateGeometry \<le> 1"
proof -
  have h1: "suffix_of sample_env ''out.png'' \<in> set [''.png'', ''.echo'']"
    by code_simp
  have h2: "suffix_of sample_env ''out.term'' \<in> set [''.csg'', ''.term'', ''.ast'']"
    by code_simp
  have h3: "OPENCSG \<noteq> CGAL"
    by simp
  have h4: "EvaluateGeometry \<in> set (trace (cmdline sample_env None ''in.scad'' ''out.stl'' CGAL))"
    by code_simp
  have h5: "suffix_of sample_env ''out.stl'' \<in> set [''.stl'', ''.off'', ''.amf'', ''.dxf'', ''.svg'']"
    by code_simp
  from geometry_evaluation_gate [of sample_env None "''in.scad''" "''out.png''" OPENCSG]
    geometry_evaluation_gate [of sample_env None "''in.scad''" "''out.term''" CGAL]
    geometry_evaluation_gate [of sample_env None "''in.scad''" "''out.stl''" CGAL]
    h1 h2 h3 h4 h5
  show ?thesis by blast
qed

text \<open>
  C1 as the specification states it does not hold for \<open>.echo\<close>: in full-render mode a
  run whose destination is an echo file evaluates the geometry.
\<close>

theorem geometry_evaluation_gate_counterexample:
  "suffix_of sample_env ''out.echo'' = ''.echo''
   \<and> EvaluateGeometry \<in> set (trace (cmdline sample_env None ''in.scad'' ''out.echo'' CGAL))"
  by code_simp

subsection \<open>The dependency file\<close>

text \<open>
  C6, as the code has it. \<open>write_deps\<close> is called only in a run whose destination has a
  solid, drawing or raster suffix (\<open>.stl\<close>, \<open>.off\<close>, \<open>.amf\<close>, \<open>.dxf\<close>, \<open>.svg\<close>,
  \<open>.png\<close>), and then for the requested dependency path and the destination. A run that
  asks for a dependency file together with an \<open>.echo\<close> destination returns 1. A run
  that asks for one together with a \<open>.csg\<close>, \<open>.ast\<close> or \<open>.term\<close> destination behaves
  exactly as the run without the request: these three branches never look at it.
\<close>

theorem dependency_output:
  "(WriteDeps p q \<in> set (trace (cmdline E d fn f r)) \<longrightarrow>
      suffix_of E f \<in> set [''.stl'', ''.off'', ''.amf'', ''.dxf'', ''.svg'', ''.png'']
      \<and> d = Some p \<and> q = f)
   \<and> (suffix_of E f = ''.echo'' \<and> d = Some p \<longrightarrow> status (cmdline E d fn f r) = Return 1)
   \<and> (suffix_of E f \<in> set [''.csg'', ''.ast'', ''.term''] \<longrightarrow>
        cmdline E d fn f r = cmdline E None fn f r)"
  using cmdline_deps [of p q E d fn f r] cmdline_echo_deps [of E f p fn r]
    cmdline_dump_ignores_deps [of E f d fn r]
  by blast

theorem dependency_output_witness:
  "suffix_of sample_env ''out.echo'' = ''.echo''
   \<and> status (cmdline sample_env (Some ''out.d'') ''in.scad'' ''out.echo'' OPENCSG) = Return 1
   \<and> suffix_of sample_env ''out.ast'' \<in> set [''.csg'', ''.ast'', ''.term'']
   \<and> cmdline sample_env (Some ''out.d'') ''in.scad'' ''out.ast'' OPENCSG =
       cmdline sample_env None ''in.scad'' ''out.ast'' OPENCSG
   \<and> WriteDeps ''out.d'' ''out.png'' \<in>
       set (trace (cmdline sample_env (Some ''out.d'') ''in.scad'' ''out.png'' OPENCSG))
   \<and> suffix_of sample_env ''out.png'' \<in>
       set [''.stl'', ''.off'', ''.amf'', ''.dxf'', ''.svg'', ''.png'']"
proof -
  have h1: "suffix_of sample_env ''out.echo'' = ''.echo''"
    by code_simp
  have h2: "suffix_of sample_env ''out.ast'' \<in> set [''.csg'', ''.ast'', ''.term'']"
    by code_simp
  have h3: "WriteDeps ''out.d'' ''out.png'' \<in>
       set (trace (cmdline sample_env (Some ''out.d'') ''in.scad'' ''out.png'' OPENCSG))"
    by code_simp
  from dependency_output [of "''out.d''" "''out.png''" sample_env "Some ''out.d''" "''in.scad''"
      "''out.echo''" OPENCSG]
    dependency_output [of "''out.d''" "''out.png''" sample_env "Some ''out.d''" "''in.scad''"
      "''out.ast''" OPENCSG]
    dependency_output [of "''out.d''" "''out.png''" sample_env "Some ''out.d''" "''in.scad''"
      "''out.png''" OPENCSG]
    h1 h2 h3
  show ?thesis by blast
qed

text \<open>
  C6 as the specification states it does not hold for the three dump formats: this run
  asks for a dependency file together with a \<open>.csg\<close> destination, prints no message,
  writes the dump and returns 0.
\<close>

theorem dependency_output_counterexample:
  "suffix_of sample_env ''out.csg'' = ''.csg''
   \<and> status (cmdline sample_env (Some ''out.d'') ''in.scad'' ''out.csg'' OPENCSG) = Return 0
   \<and> messages (trace (cmdline sample_env (Some ''out.d'') ''in.scad'' ''out.csg'' OPENCSG)) = []
   \<and> output_of ''out.csg''
        (trace (cmdline sample_env (Some ''out.d'') ''in.scad'' ''out.csg'' OPENCSG)) =
       ''group() { square(size = [1, 1], center = false); }\<newline>''"
  by code_simp

subsection \<open>An unwritable destination\<close>

text \<open>
  C5, as the code has it. The streams on the destination that \<open>cmdline\<close> itself opens
  are those of the suffixes \<open>.csg\<close>, \<open>.ast\<close>, \<open>.term\<close> and \<open>.png\<close>. In a run with
  one of these suffixes whose attempt to open the destination fails, the run prints the
  message \<open>Can't open file "..." for export\<close> and no other, writes nothing to the
  destination, makes no other call on an output file (but the dependency file of a
  \<open>.png\<close>, written before), and returns 0.
\<close>

theorem unwritable_output:
  assumes "suffix_of E f \<in> set [''.csg'', ''.ast'', ''.term'', ''.png'']"
    and "OpenOut f False \<in> set (trace (cmdline E d fn f r))"
  shows "status (cmdline E d fn f r) = Return 0
    \<and> messages (trace (cmdline E d fn f r)) = [cant_open_msg f]
    \<and> output_of f (trace (cmdline E d fn f r)) = []
    \<and> filter touches_output (trace (cmdline E d fn f r)) =
        (if suffix_of E f = ''.png''
         then (case d of None \<Rightarrow> [] | Some p \<Rightarrow> [WriteDeps p f]) else []) @
        [OpenOut f False]"
proof (cases "suffix_of E f = ''.png''")
  case True
  then show ?thesis
    using unwritable_png [OF True assms(2)] by simp
next
  case False
  then have "suffix_of E f \<in> set [''.csg'', ''.ast'', ''.term'']"
    using assms(1) by auto
  then show ?thesis
    using unwritable_dump [OF _ assms(2)] False by simp
qed

theorem unwritable_output_witness:
  "suffix_of readonly_env ''out.png'' \<in> set [''.csg'', ''.ast'', ''.term'', ''.png'']
   \<and> OpenOut ''out.png'' False \<in>
       set (trace (cmdline readonly_env (Some ''out.d'') ''in.scad'' ''out.png'' OPENCSG))
   \<and> status (cmdline readonly_env (Some ''out.d'') ''in.scad'' ''out.png'' OPENCSG) = Return 0
   \<and> messages (trace (cmdline readonly_env (Some ''out.d'') ''in.scad'' ''out.png'' OPENCSG)) =
       [cant_open_msg ''out.png'']
   \<and> output_of ''out.png''
        (trace (cmdline readonly_env (Some ''out.d'') ''in.scad'' ''out.png'' OPENCSG)) = []"
proof -
  have h1: "suffix_of readonly_env ''out.png'' \<in> set [''.csg'', ''.ast'', ''.term'', ''.png'']"
    by code_simp
  have h2: "OpenOut ''out.png'' False \<in>
       set (trace (cmdline readonly_env (Some ''out.d'') ''in.scad'' ''out.png'' OPENCSG))"
    by code_simp
  from unwritable_output [OF h1 h2] h1 h2
  show ?thesis by simp
qed

text \<open>
  C5 as the specification states it does not hold: in this run the destination cannot be
  opened, the open is attempted and fails, and the run returns 0, not 1.
\<close>

theorem unwritable_output_counterexample:
  "\<not> can_open readonly_env ''out.csg''
   \<and> OpenOut ''out.csg'' False \<in>
       set (trace (cmdline readonly_env None ''in.scad'' ''out.csg'' OPENCSG))
   \<and> status (cmdline readonly_env None ''in.scad'' ''out.csg'' OPENCSG) = Return 0
   \<and> status (cmdline readonly_env None ''in.scad'' ''out.csg'' OPENCSG) \<noteq> Return 1"
  by code_simp

end
